theory Spec2Isabelle
  imports Main
begin

section \<open>Python values and exceptions\<close>

text \<open>
  The proxy of \<^verbatim>\<open>otcextensions/sdk/s3/v1/_proxy.py\<close> moves JSON-like values
  between its caller and the S3 client: \<^verbatim>\<open>None\<close>, booleans, integers, strings, lists and
  dictionaries with string keys. A dictionary is an association list that is read with
  \<open>map_of\<close>. A \<open>string\<close> stands for a Python \<^verbatim>\<open>str\<close> all of whose code points are
  below 256, the character with code \<open>n\<close> being code point \<open>n\<close>.
\<close>

datatype pyval =
    PNone
  | PBool bool
  | PInt int
  | PStr string
  | PList "pyval list"
  | PDict "(string \<times> pyval) list"

text \<open>
  Exceptions are values. \<open>ClientError\<close> is an exception raised inside the S3 client (or
  inside the resource translation), carried through the proxy unchanged and identified by
  its text.
\<close>

datatype error =
    TypeError
  | AttributeError
  | UnboundLocalError
  | KeyError string
  | ValueError
  | OSError
  | ClientError string

type_synonym 'a result = "error + 'a"

definition bind :: "'a result \<Rightarrow> ('a \<Rightarrow> 'b result) \<Rightarrow> 'b result" where
  "bind r f = (case r of Inl e \<Rightarrow> Inl e | Inr v \<Rightarrow> f v)"

text \<open>Truth value testing, as \<^verbatim>\<open>if x:\<close> does it.\<close>

fun truthy :: "pyval \<Rightarrow> bool" where
  "truthy PNone = False"
| "truthy (PBool b) = b"
| "truthy (PInt i) = (i \<noteq> 0)"
| "truthy (PStr s) = (s \<noteq> [])"
| "truthy (PList xs) = (xs \<noteq> [])"
| "truthy (PDict kvs) = (kvs \<noteq> [])"

text \<open>\<^verbatim>\<open>x.get(key, default)\<close>: only a dictionary has the method.\<close>

fun py_get :: "pyval \<Rightarrow> string \<Rightarrow> pyval \<Rightarrow> pyval result" where
  "py_get (PDict kvs) k d = Inr (case map_of kvs k of None \<Rightarrow> d | Some v \<Rightarrow> v)"
| "py_get _ k d = Inl AttributeError"

text \<open>\<^verbatim>\<open>x == n\<close> for an integer literal \<open>n\<close>: a boolean compares as 0 or 1.\<close>

fun py_eq_int :: "pyval \<Rightarrow> int \<Rightarrow> bool" where
  "py_eq_int (PInt i) n = (i = n)"
| "py_eq_int (PBool b) n = ((if b then 1 else 0) = n)"
| "py_eq_int _ n = False"

text \<open>\<^verbatim>\<open>for x in v\<close>: the items a value yields, or \<open>TypeError\<close> when it is not iterable.\<close>

fun py_iter :: "pyval \<Rightarrow> pyval list result" where
  "py_iter (PList xs) = Inr xs"
| "py_iter (PDict kvs) = Inr (map (\<lambda>kv. PStr (fst kv)) kvs)"
| "py_iter (PStr s) = Inr (map (\<lambda>c. PStr [c]) s)"
| "py_iter _ = Inl TypeError"

section \<open>\<^verbatim>\<open>repr\<close> of strings and of a dictionary of strings\<close>

definition hexdigit :: "nat \<Rightarrow> char" where
  "hexdigit n = ''0123456789abcdef'' ! (n mod 16)"

definition hex_escape :: "char \<Rightarrow> string" where
  "hex_escape c = [CHR 0x5C, CHR ''x'', hexdigit ((of_char c :: nat) div 16), hexdigit (of_char c)]"

text \<open>\<^verbatim>\<open>str.isprintable\<close> on code points below 256.\<close>

definition printable :: "char \<Rightarrow> bool" where
  "printable c = (let n = (of_char c :: nat) in
     (32 \<le> n \<and> n < 127) \<or> (161 \<le> n \<and> n \<noteq> 173))"

definition repr_char :: "bool \<Rightarrow> char \<Rightarrow> char \<Rightarrow> string" where
  "repr_char ascii_only quote c =
     (if c = quote \<or> c = CHR 0x5C then [CHR 0x5C, c]
      else if c = CHR 0x09 then [CHR 0x5C, CHR ''t'']
      else if c = CHR 0x0A then [CHR 0x5C, CHR ''n'']
      else if c = CHR 0x0D then [CHR 0x5C, CHR ''r'']
      else if \<not> printable c \<or> (ascii_only \<and> 128 \<le> (of_char c :: nat)) then hex_escape c
      else [c])"

definition repr_str :: "bool \<Rightarrow> string \<Rightarrow> string" where
  "repr_str ascii_only s =
     (let quote = (if CHR 0x27 \<in> set s \<and> CHR 0x22 \<notin> set s then CHR 0x22 else CHR 0x27)
      in [quote] @ concat (map (repr_char ascii_only quote) s) @ [quote])"

fun repr_items :: "bool \<Rightarrow> (string \<times> string) list \<Rightarrow> string" where
  "repr_items a [] = []"
| "repr_items a [(k, v)] = repr_str a k @ '': '' @ repr_str a v"
| "repr_items a ((k, v) # kvs) = repr_str a k @ '': '' @ repr_str a v @ '', '' @ repr_items a kvs"

definition repr_dict :: "bool \<Rightarrow> (string \<times> string) list \<Rightarrow> string" where
  "repr_dict a kvs = ''{'' @ repr_items a kvs @ ''}''"

section \<open>The \<^verbatim>\<open>%\<close> operator of \<^verbatim>\<open>str\<close> with a dictionary of strings\<close>

text \<open>
  \<^verbatim>\<open>fmt % mapping\<close> reads the format one character at a time. Outside a conversion
  specification a character is copied; \<^verbatim>\<open>%\<close> opens a specification: \<^verbatim>\<open>%%\<close> is a percent
  sign, otherwise an optional \<^verbatim>\<open>(key)\<close> with balanced parentheses, flags, a width, a
  precision, one length modifier and the conversion character follow. The argument of a
  conversion without key is the mapping itself, available once; a key replaces the
  argument by the value found under it. The definitions follow CPython 3.11 on a 64-bit
  platform, where a width above \<open>2 ^ 63 - 1\<close> and a precision above \<open>2 ^ 31 - 1\<close> are
  a \<open>ValueError\<close>; the values of the mapping are strings, so that the numeric
  conversions are type errors. Running out of memory while padding is not modelled.
\<close>

datatype fmt_arg = ArgMapping | ArgValue string

datatype fmt_mode = Lit | Pct | Key nat string | Flags | Width | PrecStart | Prec | Conv

record fmt_state =
  out :: string
  args :: fmt_arg
  avail :: bool
  mode :: fmt_mode
  ljust :: bool
  width :: "nat option"
  prec :: "nat option"

definition PY_SSIZE_T_MAX :: nat where
  "PY_SSIZE_T_MAX = 2 ^ 63 - 1"

definition INT_MAX :: nat where
  "INT_MAX = 2 ^ 31 - 1"

definition is_digit :: "char \<Rightarrow> bool" where
  "is_digit c = (48 \<le> (of_char c :: nat) \<and> (of_char c :: nat) \<le> 57)"

definition digit_val :: "char \<Rightarrow> nat" where
  "digit_val c = of_char c - 48"

definition arg_text :: "(string \<times> string) list \<Rightarrow> char \<Rightarrow> fmt_arg \<Rightarrow> string" where
  "arg_text m c a =
     (case a of
        ArgMapping \<Rightarrow> repr_dict (c = CHR ''a'') m
      | ArgValue v \<Rightarrow> (if c = CHR ''s'' then v else repr_str (c = CHR ''a'') v))"

definition pad :: "fmt_state \<Rightarrow> string \<Rightarrow> string" where
  "pad st t =
     (case width st of
        None \<Rightarrow> t
      | Some w \<Rightarrow>
          if ljust st then t @ replicate (w - length t) CHR '' ''
          else replicate (w - length t) CHR '' '' @ t)"

definition emit :: "fmt_state \<Rightarrow> string \<Rightarrow> fmt_state" where
  "emit st t = st\<lparr>out := out st @ pad st t, avail := False, mode := Lit\<rparr>"

definition conv_step :: "(string \<times> string) list \<Rightarrow> fmt_state \<Rightarrow> char \<Rightarrow> fmt_state result" where
  "conv_step m st c =
     (if \<not> avail st then Inl TypeError
      else if c \<in> set ''sra'' then
        (let t = arg_text m c (args st)
         in Inr (emit st (case prec st of None \<Rightarrow> t | Some p \<Rightarrow> take p t)))
      else if c = CHR ''c'' then
        (case args st of
           ArgValue [x] \<Rightarrow> Inr (emit st [x])
         | _ \<Rightarrow> Inl TypeError)
      else if c \<in> set ''diouxXeEfFgG'' then Inl TypeError
      else Inl ValueError)"

definition lenmod_step :: "(string \<times> string) list \<Rightarrow> fmt_state \<Rightarrow> char \<Rightarrow> fmt_state result" where
  "lenmod_step m st c =
     (if c \<in> set ''hlL'' then Inr (st\<lparr>mode := Conv\<rparr>) else conv_step m st c)"

definition prec_step :: "(string \<times> string) list \<Rightarrow> fmt_state \<Rightarrow> char \<Rightarrow> fmt_state result" where
  "prec_step m st c =
     (if c = CHR ''.'' then Inr (st\<lparr>mode := PrecStart, prec := Some 0\<rparr>)
      else lenmod_step m st c)"

definition width_step :: "(string \<times> string) list \<Rightarrow> fmt_state \<Rightarrow> char \<Rightarrow> fmt_state result" where
  "width_step m st c =
     (if c = CHR ''*'' then Inl TypeError
      else if is_digit c then Inr (st\<lparr>mode := Width, width := Some (digit_val c)\<rparr>)
      else prec_step m st c)"

definition flags_step :: "(string \<times> string) list \<Rightarrow> fmt_state \<Rightarrow> char \<Rightarrow> fmt_state result" where
  "flags_step m st c =
     (if c \<in> set ''-+ #0''
      then Inr (st\<lparr>mode := Flags, ljust := (ljust st \<or> c = CHR ''-'')\<rparr>)
      else width_step m st c)"

definition more_digits :: "nat \<Rightarrow> nat option \<Rightarrow> char \<Rightarrow> nat result" where
  "more_digits bound n c =
     (let w = (case n of None \<Rightarrow> 0 | Some k \<Rightarrow> k)
      in if w > (bound - digit_val c) div 10 then Inl ValueError
         else Inr (w * 10 + digit_val c))"

definition fmt_step :: "(string \<times> string) list \<Rightarrow> fmt_state \<Rightarrow> char \<Rightarrow> fmt_state result" where
  "fmt_step m st c =
     (case mode st of
        Lit \<Rightarrow>
          if c = CHR ''%''
          then Inr (st\<lparr>mode := Pct, ljust := False, width := None, prec := None\<rparr>)
          else Inr (st\<lparr>out := out st @ [c]\<rparr>)
      | Pct \<Rightarrow>
          if c = CHR ''%'' then Inr (st\<lparr>out := out st @ [c], mode := Lit\<rparr>)
          else if c = CHR ''('' then Inr (st\<lparr>mode := Key 1 []\<rparr>)
          else flags_step m st c
      | Key pcount k \<Rightarrow>
          if c = CHR '')'' \<and> pcount = 1 then
            (case map_of m k of
               None \<Rightarrow> Inl (KeyError k)
             | Some v \<Rightarrow> Inr (st\<lparr>args := ArgValue v, avail := True, mode := Flags\<rparr>))
          else if c = CHR '')'' then Inr (st\<lparr>mode := Key (pcount - 1) (k @ [c])\<rparr>)
          else if c = CHR ''('' then Inr (st\<lparr>mode := Key (pcount + 1) (k @ [c])\<rparr>)
          else Inr (st\<lparr>mode := Key pcount (k @ [c])\<rparr>)
      | Flags \<Rightarrow> flags_step m st c
      | Width \<Rightarrow>
          if is_digit c
          then bind (more_digits PY_SSIZE_T_MAX (width st) c) (\<lambda>w. Inr (st\<lparr>width := Some w\<rparr>))
          else prec_step m st c
      | PrecStart \<Rightarrow>
          if c = CHR ''*'' then Inl TypeError
          else if is_digit c then Inr (st\<lparr>mode := Prec, prec := Some (digit_val c)\<rparr>)
          else lenmod_step m st c
      | Prec \<Rightarrow>
          if is_digit c
          then bind (more_digits INT_MAX (prec st) c) (\<lambda>p. Inr (st\<lparr>prec := Some p\<rparr>))
          else lenmod_step m st c
      | Conv \<Rightarrow> conv_step m st c)"

fun fmt_run :: "(string \<times> string) list \<Rightarrow> fmt_state \<Rightarrow> string \<Rightarrow> string result" where
  "fmt_run m st [] = (if mode st = Lit then Inr (out st) else Inl ValueError)"
| "fmt_run m st (c # cs) =
     (case fmt_step m st c of Inl e \<Rightarrow> Inl e | Inr st' \<Rightarrow> fmt_run m st' cs)"

definition fmt_init :: fmt_state where
  "fmt_init = \<lparr>out = [], args = ArgMapping, avail = True, mode = Lit,
               ljust = False, width = None, prec = None\<rparr>"

definition py_percent :: "string \<Rightarrow> (string \<times> string) list \<Rightarrow> string result" where
  "py_percent fmt m = fmt_run m fmt_init fmt"

section \<open>\<^verbatim>\<open>urllib.parse.urlsplit\<close> and \<^verbatim>\<open>os.path.basename\<close>\<close>

record split_result =
  scheme :: string
  netloc :: string
  path :: string
  query :: string
  fragment :: string

definition scheme_chars :: string where
  "scheme_chars = ''abcdefghijklmnopqrstuvwxyzABCDEFGHIJKLMNOPQRSTUVWXYZ0123456789+-.''"

definition is_ascii_alpha :: "char \<Rightarrow> bool" where
  "is_ascii_alpha c = (let n = (of_char c :: nat) in (65 \<le> n \<and> n \<le> 90) \<or> (97 \<le> n \<and> n \<le> 122))"

definition lower :: "char \<Rightarrow> char" where
  "lower c = (let n = (of_char c :: nat) in if 65 \<le> n \<and> n \<le> 90 then char_of (n + 32) else c)"

text \<open>
  Leading C0 control characters and spaces are stripped, then tab, carriage return and
  newline are removed everywhere.
\<close>

definition clean_url :: "string \<Rightarrow> string" where
  "clean_url url =
     filter (\<lambda>c. c \<notin> set [CHR 0x09, CHR 0x0D, CHR 0x0A])
       (dropWhile (\<lambda>c. (of_char c :: nat) \<le> 32) url)"

text \<open>
  \<^verbatim>\<open>i = url.find(':')\<close>; the text before the colon is the scheme when \<^verbatim>\<open>i > 0\<close>, the
  first character is an ASCII letter and all of it is made of scheme characters.
\<close>

definition split_scheme :: "string \<Rightarrow> string \<times> string" where
  "split_scheme url =
     (let pre = takeWhile (\<lambda>c. c \<noteq> CHR '':'') url
      in if CHR '':'' \<in> set url \<and> pre \<noteq> [] \<and> is_ascii_alpha (hd url)
            \<and> list_all (\<lambda>c. c \<in> set scheme_chars) pre
         then (map lower pre, drop (Suc (length pre)) url)
         else ([], url))"

text \<open>\<^verbatim>\<open>_splitnetloc(url, 2)\<close>: the network location ends at the first of \<^verbatim>\<open>/?#\<close>.\<close>

definition splitnetloc :: "string \<Rightarrow> string \<times> string" where
  "splitnetloc url =
     (takeWhile (\<lambda>c. c \<notin> set ''/?#'') (drop 2 url),
      dropWhile (\<lambda>c. c \<notin> set ''/?#'') (drop 2 url))"

text \<open>\<^verbatim>\<open>url.split(c, 1)\<close> when \<open>c\<close> occurs in \<open>url\<close>.\<close>

definition split_at :: "char \<Rightarrow> string \<Rightarrow> string \<times> string" where
  "split_at c url = (takeWhile (\<lambda>x. x \<noteq> c) url, drop 1 (dropWhile (\<lambda>x. x \<noteq> c) url))"

text \<open>
  The check of a bracketed host (\<^verbatim>\<open>_check_bracketed_host\<close>: the \<^verbatim>\<open>ipaddress\<close> module and
  the IPvFuture pattern) is the parameter \<open>host_ok\<close>. \<^verbatim>\<open>_checknetloc\<close> raises only for code
  points whose NFKC form contains one of \<^verbatim>\<open>/?#@:\<close>; none below 256 has such a form, so it
  does nothing on the strings modelled here.
\<close>

definition urlsplit :: "(string \<Rightarrow> bool) \<Rightarrow> string \<Rightarrow> split_result result" where
  "urlsplit host_ok url0 =
     (let (sch, url1) = split_scheme (clean_url url0);
          (nl, url2) = (if take 2 url1 = ''//'' then splitnetloc url1 else ([], url1));
          (url3, frag) = (if CHR ''#'' \<in> set url2 then split_at CHR ''#'' url2 else (url2, []));
          (url4, qry) = (if CHR ''?'' \<in> set url3 then split_at CHR ''?'' url3 else (url3, []))
      in if (CHR ''['' \<in> set nl) \<noteq> (CHR '']'' \<in> set nl) then Inl ValueError
         else if CHR ''['' \<in> set nl
               \<and> \<not> host_ok (takeWhile (\<lambda>c. c \<noteq> CHR '']'') (drop 1 (dropWhile (\<lambda>c. c \<noteq> CHR ''['') nl)))
         then Inl ValueError
         else Inr \<lparr>scheme = sch, netloc = nl, path = url4, query = qry, fragment = frag\<rparr>)"

text \<open>\<^verbatim>\<open>posixpath.basename\<close>: what follows the last slash.\<close>

definition basename :: "string \<Rightarrow> string" where
  "basename p = rev (takeWhile (\<lambda>c. c \<noteq> CHR ''/'') (rev p))"

section \<open>The S3 client and the proxy\<close>

text \<open>
  Keyword arguments are an association list. The client made by \<^verbatim>\<open>boto3.client\<close> is
  outside the repository: each of its methods is a function from the keyword arguments to
  the response or the exception. \<open>s3_download_fileobj\<close> gives, for a bucket and a key, the
  bytes the client writes to the file object and the exception it then raises, if any.
\<close>

type_synonym kwargs = "(string \<times> pyval) list"

record s3_client =
  s3_list_buckets :: "pyval result"
  s3_create_bucket :: "kwargs \<Rightarrow> pyval result"
  s3_head_bucket :: "kwargs \<Rightarrow> pyval result"
  s3_delete_bucket :: "kwargs \<Rightarrow> pyval result"
  s3_get_bucket_acl :: "kwargs \<Rightarrow> pyval result"
  s3_put_bucket_acl :: "kwargs \<Rightarrow> pyval result"
  s3_put_bucket_policy :: "kwargs \<Rightarrow> pyval result"
  s3_get_bucket_policy :: "kwargs \<Rightarrow> pyval result"
  s3_delete_bucket_policy :: "kwargs \<Rightarrow> pyval result"
  s3_upload_file :: "kwargs \<Rightarrow> pyval result"
  s3_download_fileobj :: "pyval \<Rightarrow> pyval \<Rightarrow> string \<times> error option"
  s3_delete_object :: "kwargs \<Rightarrow> pyval result"

text \<open>
  \<^verbatim>\<open>f(a=x, **kwargs)\<close>: a keyword given twice is a \<open>TypeError\<close> raised before the call.
\<close>

definition call_kw :: "(kwargs \<Rightarrow> pyval result) \<Rightarrow> kwargs \<Rightarrow> kwargs \<Rightarrow> pyval result" where
  "call_kw f named kw =
     (if set (map fst named) \<inter> set (map fst kw) = {} then f (named @ kw) else Inl TypeError)"

text \<open>
  What \<^verbatim>\<open>boto3.client('s3', ...)\<close> puts in front of the service. Before a request is
  built, botocore's handler \<^verbatim>\<open>validate_bucket_name\<close> searches the parameter \<^verbatim>\<open>Bucket\<close>,
  when there is one, for \<^verbatim>\<open>^[a-zA-Z0-9.\-_]{1,255}$\<close> (the \<^verbatim>\<open>$\<close> of Python also matches
  before a final newline) and for the patterns of an access point ARN, which all begin
  with \<^verbatim>\<open>arn:aws\<close>; the rest of these patterns is the parameter \<open>arn_ok\<close>. A name that
  matches none raises \<^verbatim>\<open>ParamValidationError\<close>, and a \<^verbatim>\<open>Bucket\<close> that is no string makes
  the search raise \<open>TypeError\<close>.
\<close>

definition bucket_char :: "char \<Rightarrow> bool" where
  "bucket_char c = (is_ascii_alpha c \<or> is_digit c \<or> c \<in> set ''.-_'')"

definition valid_bucket :: "string \<Rightarrow> bool" where
  "valid_bucket b =
     (let core = (if b \<noteq> [] \<and> last b = CHR 0x0A then butlast b else b)
      in core \<noteq> [] \<and> length core \<le> 255 \<and> list_all bucket_char core)"

definition valid_s3_arn :: "(string \<Rightarrow> bool) \<Rightarrow> string \<Rightarrow> bool" where
  "valid_s3_arn arn_ok b = (take 7 b = ''arn:aws'' \<and> arn_ok b)"

definition validate_bucket_name :: "(string \<Rightarrow> bool) \<Rightarrow> kwargs \<Rightarrow> error option" where
  "validate_bucket_name arn_ok params =
     (case map_of params ''Bucket'' of
        None \<Rightarrow> None
      | Some (PStr bucket) \<Rightarrow>
          if \<not> valid_bucket bucket \<and> \<not> valid_s3_arn arn_ok bucket
          then Some (ClientError ''ParamValidationError'')
          else None
      | Some _ \<Rightarrow> Some TypeError)"

definition api_call ::
  "(string \<Rightarrow> bool) \<Rightarrow> (kwargs \<Rightarrow> pyval result) \<Rightarrow> kwargs \<Rightarrow> pyval result" where
  "api_call arn_ok send params =
     (case validate_bucket_name arn_ok params of
        Some e \<Rightarrow> Inl e
      | None \<Rightarrow> send params)"

text \<open>
  \<^verbatim>\<open>upload_file\<close> is the method boto3 adds to the client, with the signature
  \<^verbatim>\<open>upload_file(Filename, Bucket, Key, ExtraArgs=None, Callback=None, Config=None)\<close>: a
  keyword that is no parameter, or a missing \<^verbatim>\<open>Filename\<close>, \<^verbatim>\<open>Bucket\<close> or \<^verbatim>\<open>Key\<close>, is a
  \<open>TypeError\<close> raised when the arguments are bound, before the body runs.
\<close>

definition upload_file_parameters :: "string list" where
  "upload_file_parameters = [''Filename'', ''Bucket'', ''Key'', ''ExtraArgs'', ''Callback'', ''Config'']"

definition bind_upload_file :: "(kwargs \<Rightarrow> pyval result) \<Rightarrow> kwargs \<Rightarrow> pyval result" where
  "bind_upload_file body kw =
     (if list_all (\<lambda>k. k \<in> set upload_file_parameters) (map fst kw)
         \<and> list_all (\<lambda>k. k \<in> set (map fst kw)) [''Filename'', ''Bucket'', ''Key'']
      then body kw
      else Inl TypeError)"

text \<open>
  The client boto3 makes over a service: \<open>service\<close> gives what each request is answered
  with, once it has passed the checks of the client.
\<close>

definition boto3_s3_client :: "(string \<Rightarrow> bool) \<Rightarrow> s3_client \<Rightarrow> s3_client" where
  "boto3_s3_client arn_ok service =
     \<lparr>s3_list_buckets = s3_list_buckets service,
      s3_create_bucket = api_call arn_ok (s3_create_bucket service),
      s3_head_bucket = api_call arn_ok (s3_head_bucket service),
      s3_delete_bucket = api_call arn_ok (s3_delete_bucket service),
      s3_get_bucket_acl = api_call arn_ok (s3_get_bucket_acl service),
      s3_put_bucket_acl = api_call arn_ok (s3_put_bucket_acl service),
      s3_put_bucket_policy = api_call arn_ok (s3_put_bucket_policy service),
      s3_get_bucket_policy = api_call arn_ok (s3_get_bucket_policy service),
      s3_delete_bucket_policy = api_call arn_ok (s3_delete_bucket_policy service),
      s3_upload_file = bind_upload_file (s3_upload_file service),
      s3_download_fileobj = s3_download_fileobj service,
      s3_delete_object = api_call arn_ok (s3_delete_object service)\<rparr>"

text \<open>
  What a \<^verbatim>\<open>Proxy\<close> object reaches: the endpoint of its adapter (\<^verbatim>\<open>self.get_endpoint()\<close>),
  the \<^verbatim>\<open>get_ak_sk\<close> of the connection of its session (\<open>None\<close> when the connection has no
  such attribute), \<^verbatim>\<open>boto3.client\<close> (endpoint, access key, secret key), and the two
  translations of \<^verbatim>\<open>otcextensions.sdk.s3.v1.container.Container\<close>, applied to a fresh
  \<^verbatim>\<open>Container.new()\<close>. The container module is not among the sources: its translations
  are parameters, with the type \<open>'c\<close> of what they return.
\<close>

record 'c proxy =
  get_endpoint :: string
  get_ak_sk :: "(pyval \<times> pyval) option"
  boto3_client :: "string \<Rightarrow> pyval \<Rightarrow> pyval \<Rightarrow> s3_client result"
  translate_response :: "pyval \<Rightarrow> 'c result"
  translate_container_response :: "pyval \<Rightarrow> 'c result"
  bracketed_host_ok :: "string \<Rightarrow> bool"

definition get_container_endpoint :: "'c proxy \<Rightarrow> string \<Rightarrow> string result" where
  "get_container_endpoint p region =
     bind (urlsplit (bracketed_host_ok p) (get_endpoint p)) (\<lambda>split_url.
       py_percent (scheme split_url @ ''://'' @ netloc split_url) [(''region_name'', region)])"

text \<open>
  \<^verbatim>\<open>_set_ak_sk_keys\<close>: without \<^verbatim>\<open>get_ak_sk\<close> the names \<^verbatim>\<open>ak\<close> and \<^verbatim>\<open>sk\<close> are unbound when
  they are read. With a falsy key the method logs \<^verbatim>\<open>Cannot obtain AK/SK from config\<close>
  (the log is written only, and not modelled) and returns \<^verbatim>\<open>None\<close>.
\<close>

definition set_ak_sk_keys :: "'c proxy \<Rightarrow> (pyval \<times> pyval) option result" where
  "set_ak_sk_keys p =
     (case get_ak_sk p of
        None \<Rightarrow> Inl UnboundLocalError
      | Some (ak, sk) \<Rightarrow>
          if \<not> (truthy ak \<and> truthy sk) then Inr None else Inr (Some (ak, sk)))"

text \<open>\<^verbatim>\<open>ak, sk = self._set_ak_sk_keys()\<close> unpacks the result: \<^verbatim>\<open>None\<close> is a \<open>TypeError\<close>.\<close>

definition get_boto3_client :: "'c proxy \<Rightarrow> string \<Rightarrow> s3_client result" where
  "get_boto3_client p region_name =
     bind (get_container_endpoint p region_name) (\<lambda>endpoint.
     bind (set_ak_sk_keys p) (\<lambda>keys.
       case keys of
         None \<Rightarrow> Inl TypeError
       | Some (ak, sk) \<Rightarrow> boto3_client p endpoint ak sk))"

section \<open>Containers\<close>

text \<open>
  A method returns the translated container or the response as it came.
\<close>

datatype 'c outcome = Translated 'c | Raw pyval

text \<open>
  The block that ends each of the eight container methods, with the status code of the
  method:
  \<^verbatim>\<open>if response.get('ResponseMetadata'):\<close>
  \<^verbatim>\<open>    if response.get('ResponseMetadata').get('HTTPStatusCode', None) == code:\<close>
  \<^verbatim>\<open>        container = Container.new()\<close>
  \<^verbatim>\<open>        return container._translate_response(response)\<close>
  \<^verbatim>\<open>return response\<close>
\<close>

definition return_for_status :: "'c proxy \<Rightarrow> int \<Rightarrow> pyval \<Rightarrow> 'c outcome result" where
  "return_for_status p code response =
     bind (py_get response ''ResponseMetadata'' PNone) (\<lambda>md.
       if truthy md then
         bind (py_get md ''HTTPStatusCode'' PNone) (\<lambda>status.
           if py_eq_int status code
           then bind (translate_response p response) (\<lambda>c. Inr (Translated c))
           else Inr (Raw response))
       else Inr (Raw response))"

text \<open>
  \<^verbatim>\<open>containers\<close> is a generator: nothing runs before the first item is asked for. Its
  value here is the list of the items it yields and the exception that ends the
  iteration, if any. The query is not used.
\<close>

fun translate_buckets :: "'c proxy \<Rightarrow> pyval list \<Rightarrow> 'c list \<times> error option" where
  "translate_buckets p [] = ([], None)"
| "translate_buckets p (bucket # buckets) =
     (case translate_container_response p bucket of
        Inl e \<Rightarrow> ([], Some e)
      | Inr c \<Rightarrow> (case translate_buckets p buckets of (cs, e) \<Rightarrow> (c # cs, e)))"

definition containers :: "'c proxy \<Rightarrow> string \<Rightarrow> kwargs \<Rightarrow> 'c list \<times> error option" where
  "containers p region query_kw =
     (case bind (get_boto3_client p region) (\<lambda>s3.
             bind (s3_list_buckets s3) (\<lambda>response.
             bind (py_get response ''Buckets'' PNone) py_iter)) of
        Inl e \<Rightarrow> ([], Some e)
      | Inr buckets \<Rightarrow> translate_buckets p buckets)"

definition create_container :: "'c proxy \<Rightarrow> string \<Rightarrow> string \<Rightarrow> kwargs \<Rightarrow> 'c outcome result" where
  "create_container p container_name region kw =
     bind (get_boto3_client p region) (\<lambda>s3.
     bind (call_kw (s3_create_bucket s3)
             [(''Bucket'', PStr container_name),
              (''CreateBucketConfiguration'', PDict [(''LocationConstraint'', PStr region)])] kw)
       (return_for_status p 200))"

definition get_container :: "'c proxy \<Rightarrow> string \<Rightarrow> string \<Rightarrow> kwargs \<Rightarrow> 'c outcome result" where
  "get_container p container_name region kw =
     bind (get_boto3_client p region) (\<lambda>s3.
     bind (call_kw (s3_head_bucket s3) [(''Bucket'', PStr container_name)] kw)
       (return_for_status p 200))"

definition delete_container :: "'c proxy \<Rightarrow> string \<Rightarrow> string \<Rightarrow> 'c outcome result" where
  "delete_container p container_name region =
     bind (get_boto3_client p region) (\<lambda>s3.
     bind (s3_delete_bucket s3 [(''Bucket'', PStr container_name)])
       (return_for_status p 204))"

definition get_container_acl :: "'c proxy \<Rightarrow> string \<Rightarrow> string \<Rightarrow> kwargs \<Rightarrow> 'c outcome result" where
  "get_container_acl p container_name region kw =
     bind (get_boto3_client p region) (\<lambda>s3.
     bind (call_kw (s3_get_bucket_acl s3) [(''Bucket'', PStr container_name)] kw)
       (return_for_status p 200))"

definition put_container_acl :: "'c proxy \<Rightarrow> string \<Rightarrow> string \<Rightarrow> kwargs \<Rightarrow> 'c outcome result" where
  "put_container_acl p container_name region kw =
     bind (get_boto3_client p region) (\<lambda>s3.
     bind (call_kw (s3_put_bucket_acl s3) [(''Bucket'', PStr container_name)] kw)
       (return_for_status p 200))"

definition put_container_policy ::
  "'c proxy \<Rightarrow> string \<Rightarrow> pyval \<Rightarrow> string \<Rightarrow> kwargs \<Rightarrow> 'c outcome result" where
  "put_container_policy p container_name policy region kw =
     bind (get_boto3_client p region) (\<lambda>s3.
     bind (call_kw (s3_put_bucket_policy s3)
             [(''Bucket'', PStr container_name), (''Policy'', policy)] kw)
       (return_for_status p 200))"

definition get_container_policy :: "'c proxy \<Rightarrow> string \<Rightarrow> string \<Rightarrow> kwargs \<Rightarrow> 'c outcome result" where
  "get_container_policy p container_name region kw =
     bind (get_boto3_client p region) (\<lambda>s3.
     bind (call_kw (s3_get_bucket_policy s3) [(''Bucket'', PStr container_name)] kw)
       (return_for_status p 200))"

definition delete_container_policy :: "'c proxy \<Rightarrow> string \<Rightarrow> string \<Rightarrow> kwargs \<Rightarrow> 'c outcome result" where
  "delete_container_policy p container_name region kw =
     bind (get_boto3_client p region) (\<lambda>s3.
     bind (call_kw (s3_delete_bucket_policy s3) [(''Bucket'', PStr container_name)] kw)
       (return_for_status p 204))"

section \<open>Objects\<close>

text \<open>
  \<^verbatim>\<open>upload_object\<close>: the key defaults to the base name of the file. The response is
  returned as it came.
\<close>

definition upload_key :: "string \<Rightarrow> pyval \<Rightarrow> pyval" where
  "upload_key file_name key = (if key = PNone then PStr (basename file_name) else key)"

definition upload_object ::
  "'c proxy \<Rightarrow> string \<Rightarrow> string \<Rightarrow> string \<Rightarrow> pyval \<Rightarrow> kwargs \<Rightarrow> pyval result" where
  "upload_object p container_name file_name region key kw =
     bind (get_boto3_client p region) (\<lambda>s3.
       call_kw (s3_upload_file s3)
         [(''Fileobj'', PStr file_name), (''Bucket'', PStr container_name),
          (''Key'', upload_key file_name key)] kw)"

text \<open>\<^verbatim>\<open>delete_object\<close> does not pass its keyword arguments on, and returns the response.\<close>

definition delete_object ::
  "'c proxy \<Rightarrow> string \<Rightarrow> pyval \<Rightarrow> string \<Rightarrow> kwargs \<Rightarrow> 'c outcome result" where
  "delete_object p container_name key region kw =
     bind (get_boto3_client p region) (\<lambda>s3.
     bind (s3_delete_object s3 [(''Bucket'', PStr container_name), (''Key'', key)])
       (\<lambda>response. Inr (Raw response)))"

text \<open>
  The file system that \<^verbatim>\<open>download_object\<close> writes to: the content of each file, the
  file objects that are open (descriptor and path), and which paths can be opened for
  writing. \<^verbatim>\<open>open(file_name, 'wb')\<close> raises \<open>OSError\<close> or truncates the file and
  gives a new descriptor; leaving the \<^verbatim>\<open>with\<close> block closes it, also when the block
  raises.
\<close>

record fs =
  files :: "string \<Rightarrow> string option"
  opened :: "(nat \<times> string) list"
  can_open :: "string \<Rightarrow> bool"

definition new_fd :: "(nat \<times> string) list \<Rightarrow> nat" where
  "new_fd fds = Suc (fold max (map fst fds) 0)"

definition open_wb :: "string \<Rightarrow> fs \<Rightarrow> (nat \<times> fs) result" where
  "open_wb file_name s =
     (if can_open s file_name
      then Inr (new_fd (opened s),
                s\<lparr>files := (files s)(file_name \<mapsto> []),
                  opened := (new_fd (opened s), file_name) # opened s\<rparr>)
      else Inl OSError)"

definition write_fd :: "nat \<Rightarrow> string \<Rightarrow> fs \<Rightarrow> fs" where
  "write_fd fd data s =
     (case map_of (opened s) fd of
        None \<Rightarrow> s
      | Some file_name \<Rightarrow>
          s\<lparr>files := (files s)(file_name \<mapsto> (case files s file_name of None \<Rightarrow> [] | Some old \<Rightarrow> old) @ data)\<rparr>)"

definition close_fd :: "nat \<Rightarrow> fs \<Rightarrow> fs" where
  "close_fd fd s = s\<lparr>opened := filter (\<lambda>h. fst h \<noteq> fd) (opened s)\<rparr>"

definition download_object ::
  "'c proxy \<Rightarrow> string \<Rightarrow> string \<Rightarrow> string \<Rightarrow> pyval \<Rightarrow> fs \<Rightarrow> pyval result \<times> fs" where
  "download_object p file_name container_name region key s =
     (case get_boto3_client p region of
        Inl e \<Rightarrow> (Inl e, s)
      | Inr s3 \<Rightarrow>
          (case open_wb file_name s of
             Inl e \<Rightarrow> (Inl e, s)
           | Inr (f, s1) \<Rightarrow>
               (case s3_download_fileobj s3 (PStr container_name) key of
                  (data, raised) \<Rightarrow>
                    (case raised of None \<Rightarrow> Inr PNone | Some e \<Rightarrow> Inl e,
                     close_fd f (write_fd f data s1)))))"

section \<open>Responses and operations, for the statements below\<close>

text \<open>
  The status code a response carries in its metadata envelope, and the shape of a response
  of the client: a dictionary whose \<^verbatim>\<open>ResponseMetadata\<close>, when it is there and not falsy,
  is a dictionary.
\<close>

definition http_status :: "pyval \<Rightarrow> pyval option" where
  "http_status response =
     (case response of
        PDict kvs \<Rightarrow>
          (case map_of kvs ''ResponseMetadata'' of
             Some (PDict md) \<Rightarrow> map_of md ''HTTPStatusCode''
           | _ \<Rightarrow> None)
      | _ \<Rightarrow> None)"

definition envelope_ok :: "pyval \<Rightarrow> bool" where
  "envelope_ok response =
     (case response of
        PDict kvs \<Rightarrow>
          (case map_of kvs ''ResponseMetadata'' of
             None \<Rightarrow> True
           | Some (PDict md) \<Rightarrow> True
           | Some v \<Rightarrow> \<not> truthy v)
      | _ \<Rightarrow> False)"

text \<open>
  The eight container methods that end with the status block, the call each makes to the
  client, and the status code the specification declares for each.
\<close>

datatype container_op =
    CreateContainer | GetContainer | DeleteContainer | GetContainerAcl | PutContainerAcl
  | PutContainerPolicy | GetContainerPolicy | DeleteContainerPolicy

fun declared_code :: "container_op \<Rightarrow> int" where
  "declared_code DeleteContainer = 204"
| "declared_code DeleteContainerPolicy = 204"
| "declared_code _ = 200"

fun run_op ::
  "'c proxy \<Rightarrow> container_op \<Rightarrow> string \<Rightarrow> pyval \<Rightarrow> string \<Rightarrow> kwargs \<Rightarrow> 'c outcome result" where
  "run_op p CreateContainer n pol region kw = create_container p n region kw"
| "run_op p GetContainer n pol region kw = get_container p n region kw"
| "run_op p DeleteContainer n pol region kw = delete_container p n region"
| "run_op p GetContainerAcl n pol region kw = get_container_acl p n region kw"
| "run_op p PutContainerAcl n pol region kw = put_container_acl p n region kw"
| "run_op p PutContainerPolicy n pol region kw = put_container_policy p n pol region kw"
| "run_op p GetContainerPolicy n pol region kw = get_container_policy p n region kw"
| "run_op p DeleteContainerPolicy n pol region kw = delete_container_policy p n region kw"

fun client_call ::
  "s3_client \<Rightarrow> container_op \<Rightarrow> string \<Rightarrow> pyval \<Rightarrow> string \<Rightarrow> kwargs \<Rightarrow> pyval result" where
  "client_call s3 CreateContainer n pol region kw =
     call_kw (s3_create_bucket s3)
       [(''Bucket'', PStr n),
        (''CreateBucketConfiguration'', PDict [(''LocationConstraint'', PStr region)])] kw"
| "client_call s3 GetContainer n pol region kw =
     call_kw (s3_head_bucket s3) [(''Bucket'', PStr n)] kw"
| "client_call s3 DeleteContainer n pol region kw = s3_delete_bucket s3 [(''Bucket'', PStr n)]"
| "client_call s3 GetContainerAcl n pol region kw =
     call_kw (s3_get_bucket_acl s3) [(''Bucket'', PStr n)] kw"
| "client_call s3 PutContainerAcl n pol region kw =
     call_kw (s3_put_bucket_acl s3) [(''Bucket'', PStr n)] kw"
| "client_call s3 PutContainerPolicy n pol region kw =
     call_kw (s3_put_bucket_policy s3) [(''Bucket'', PStr n), (''Policy'', pol)] kw"
| "client_call s3 GetContainerPolicy n pol region kw =
     call_kw (s3_get_bucket_policy s3) [(''Bucket'', PStr n)] kw"
| "client_call s3 DeleteContainerPolicy n pol region kw =
     call_kw (s3_delete_bucket_policy s3) [(''Bucket'', PStr n)] kw"

section \<open>Example proxies\<close>

text \<open>
  A client whose methods all answer with \<open>f\<close> of their keyword arguments, and a proxy
  that is given this client whatever the endpoint and the keys.
\<close>

definition envelope :: "int \<Rightarrow> kwargs \<Rightarrow> pyval" where
  "envelope code kw = PDict ((''ResponseMetadata'', PDict [(''HTTPStatusCode'', PInt code)]) # kw)"

definition stub_client ::
  "(kwargs \<Rightarrow> pyval result) \<Rightarrow> pyval result \<Rightarrow> string \<times> error option \<Rightarrow> s3_client" where
  "stub_client f buckets dl =
     \<lparr>s3_list_buckets = buckets, s3_create_bucket = f, s3_head_bucket = f,
      s3_delete_bucket = f, s3_get_bucket_acl = f, s3_put_bucket_acl = f,
      s3_put_bucket_policy = f, s3_get_bucket_policy = f, s3_delete_bucket_policy = f,
      s3_upload_file = f, s3_download_fileobj = (\<lambda>bucket key. dl), s3_delete_object = f\<rparr>"

definition stub_proxy ::
  "string \<Rightarrow> (pyval \<times> pyval) option \<Rightarrow> (pyval \<Rightarrow> 'c result) \<Rightarrow> s3_client \<Rightarrow> 'c proxy" where
  "stub_proxy url keys tr s3 =
     \<lparr>get_endpoint = url, get_ak_sk = keys, boto3_client = (\<lambda>endpoint ak sk. Inr s3),
      translate_response = tr, translate_container_response = tr,
      bracketed_host_ok = (\<lambda>host. True)\<rparr>"

definition otc_url :: string where
  "otc_url = ''https://obs.%(region_name)s.otc.t-systems.com/v1''"

definition otc_keys :: "(pyval \<times> pyval) option" where
  "otc_keys = Some (PStr ''AK'', PStr ''SK'')"

text \<open>
  The boto3 client over a service that answers every request with the status \<open>code\<close> and
  the parameters of the request.
\<close>

definition echo_service :: "int \<Rightarrow> s3_client" where
  "echo_service code =
     stub_client (\<lambda>kw. Inr (envelope code kw)) (Inr (envelope 200 [(''Buckets'', PList [])]))
       ([], None)"

definition echo_client :: "int \<Rightarrow> s3_client" where
  "echo_client code = boto3_s3_client (\<lambda>arn. False) (echo_service code)"

definition echo_proxy :: "int \<Rightarrow> pyval proxy" where
  "echo_proxy code = stub_proxy otc_url otc_keys Inr (echo_client code)"

text \<open>A client that answers every call with the response \<open>r\<close>.\<close>

definition const_client :: "pyval \<Rightarrow> s3_client" where
  "const_client r = stub_client (\<lambda>kw. Inr r) (Inr r) ([], None)"

definition const_proxy :: "pyval \<Rightarrow> pyval proxy" where
  "const_proxy r = stub_proxy otc_url otc_keys Inr (const_client r)"

text \<open>The proxy whose connection gives two empty strings as keys.\<close>

definition empty_keys_proxy :: "pyval proxy" where
  "empty_keys_proxy = stub_proxy otc_url (Some (PStr [], PStr [])) Inr (echo_client 200)"

text \<open>A listing with two buckets, and a listing without the entry \<^verbatim>\<open>Buckets\<close>.\<close>

definition two_buckets :: pyval where
  "two_buckets =
     envelope 200
       [(''Buckets'', PList [PDict [(''Name'', PStr ''bucket-a'')],
                             PDict [(''Name'', PStr ''bucket-b'')]])]"

definition no_buckets :: pyval where
  "no_buckets = envelope 200 [(''Owner'', PDict [(''ID'', PStr ''me'')])]"

text \<open>
  A client whose download writes \<open>data\<close> and then raises \<open>e\<close>, and a file system with one
  file object open already.
\<close>

definition failing_download_proxy :: "string \<Rightarrow> error \<Rightarrow> pyval proxy" where
  "failing_download_proxy data e =
     stub_proxy otc_url otc_keys Inr
       (stub_client (\<lambda>kw. Inr (envelope 200 kw)) (Inr no_buckets) (data, Some e))"

definition busy_fs :: fs where
  "busy_fs = \<lparr>files = [''app.log'' \<mapsto> ''started''], opened = [(3, ''app.log'')],
              can_open = (\<lambda>file_name. True)\<rparr>"

section \<open>Evaluation of the example proxies\<close>

lemma stub_proxy_sel:
  "get_endpoint (stub_proxy url keys tr s3) = url"
  "get_ak_sk (stub_proxy url keys tr s3) = keys"
  "boto3_client (stub_proxy url keys tr s3) = (\<lambda>endpoint ak sk. Inr s3)"
  "translate_response (stub_proxy url keys tr s3) = tr"
  "translate_container_response (stub_proxy url keys tr s3) = tr"
  "bracketed_host_ok (stub_proxy url keys tr s3) = (\<lambda>host. True)"
  by (simp_all add: stub_proxy_def)

lemma stub_client_sel:
  "s3_list_buckets (stub_client f buckets dl) = buckets"
  "s3_create_bucket (stub_client f buckets dl) = f"
  "s3_head_bucket (stub_client f buckets dl) = f"
  "s3_delete_bucket (stub_client f buckets dl) = f"
  "s3_get_bucket_acl (stub_client f buckets dl) = f"
  "s3_put_bucket_acl (stub_client f buckets dl) = f"
  "s3_put_bucket_policy (stub_client f buckets dl) = f"
  "s3_get_bucket_policy (stub_client f buckets dl) = f"
  "s3_delete_bucket_policy (stub_client f buckets dl) = f"
  "s3_upload_file (stub_client f buckets dl) = f"
  "s3_download_fileobj (stub_client f buckets dl) = (\<lambda>bucket key. dl)"
  "s3_delete_object (stub_client f buckets dl) = f"
  by (simp_all add: stub_client_def)

lemma boto3_s3_client_sel:
  "s3_list_buckets (boto3_s3_client arn_ok service) = s3_list_buckets service"
  "s3_create_bucket (boto3_s3_client arn_ok service) = api_call arn_ok (s3_create_bucket service)"
  "s3_head_bucket (boto3_s3_client arn_ok service) = api_call arn_ok (s3_head_bucket service)"
  "s3_delete_bucket (boto3_s3_client arn_ok service) = api_call arn_ok (s3_delete_bucket service)"
  "s3_get_bucket_acl (boto3_s3_client arn_ok service) = api_call arn_ok (s3_get_bucket_acl service)"
  "s3_put_bucket_acl (boto3_s3_client arn_ok service) = api_call arn_ok (s3_put_bucket_acl service)"
  "s3_put_bucket_policy (boto3_s3_client arn_ok service) =
     api_call arn_ok (s3_put_bucket_policy service)"
  "s3_get_bucket_policy (boto3_s3_client arn_ok service) =
     api_call arn_ok (s3_get_bucket_policy service)"
  "s3_delete_bucket_policy (boto3_s3_client arn_ok service) =
     api_call arn_ok (s3_delete_bucket_policy service)"
  "s3_upload_file (boto3_s3_client arn_ok service) = bind_upload_file (s3_upload_file service)"
  "s3_download_fileobj (boto3_s3_client arn_ok service) = s3_download_fileobj service"
  "s3_delete_object (boto3_s3_client arn_ok service) = api_call arn_ok (s3_delete_object service)"
  by (simp_all add: boto3_s3_client_def)

lemma valid_bucket_a: "valid_bucket ''bucket-a''"
  by (simp add: valid_bucket_def bucket_char_def is_ascii_alpha_def is_digit_def)

lemma api_call_bucket_a:
  "api_call arn_ok send ((''Bucket'', PStr ''bucket-a'') # params) =
     send ((''Bucket'', PStr ''bucket-a'') # params)"
  by (simp add: api_call_def validate_bucket_name_def valid_bucket_a)

lemma api_call_empty_name:
  "api_call arn_ok send ((''Bucket'', PStr []) # params) = Inl (ClientError ''ParamValidationError'')"
  by (simp add: api_call_def validate_bucket_name_def valid_bucket_def valid_s3_arn_def)

lemma echo_client_sel:
  "s3_create_bucket (echo_client code) = api_call (\<lambda>arn. False) (\<lambda>kw. Inr (envelope code kw))"
  "s3_head_bucket (echo_client code) = api_call (\<lambda>arn. False) (\<lambda>kw. Inr (envelope code kw))"
  "s3_delete_bucket (echo_client code) = api_call (\<lambda>arn. False) (\<lambda>kw. Inr (envelope code kw))"
  "s3_get_bucket_acl (echo_client code) = api_call (\<lambda>arn. False) (\<lambda>kw. Inr (envelope code kw))"
  "s3_put_bucket_acl (echo_client code) = api_call (\<lambda>arn. False) (\<lambda>kw. Inr (envelope code kw))"
  "s3_put_bucket_policy (echo_client code) =
     api_call (\<lambda>arn. False) (\<lambda>kw. Inr (envelope code kw))"
  "s3_get_bucket_policy (echo_client code) =
     api_call (\<lambda>arn. False) (\<lambda>kw. Inr (envelope code kw))"
  "s3_delete_bucket_policy (echo_client code) =
     api_call (\<lambda>arn. False) (\<lambda>kw. Inr (envelope code kw))"
  "s3_delete_object (echo_client code) = api_call (\<lambda>arn. False) (\<lambda>kw. Inr (envelope code kw))"
  "s3_upload_file (echo_client code) = bind_upload_file (\<lambda>kw. Inr (envelope code kw))"
  by (simp_all add: echo_client_def echo_service_def boto3_s3_client_sel stub_client_sel)

lemma otc_endpoint:
  "get_container_endpoint (stub_proxy otc_url keys tr s3) ''eu-de'' =
     Inr ''https://obs.eu-de.otc.t-systems.com''"
  by code_simp

lemma stub_resolves: "get_boto3_client (stub_proxy otc_url otc_keys tr s3) ''eu-de'' = Inr s3"
  by (simp add: get_boto3_client_def otc_endpoint bind_def set_ak_sk_keys_def otc_keys_def
      stub_proxy_sel)

lemma echo_resolves: "get_boto3_client (echo_proxy code) ''eu-de'' = Inr (echo_client code)"
  by (simp add: echo_proxy_def stub_resolves)

lemma http_status_envelope: "http_status (envelope code kw) = Some (PInt code)"
  by (simp add: http_status_def envelope_def)

section \<open>The status block\<close>

lemma http_status_envelope_ok: "http_status r = Some v \<Longrightarrow> envelope_ok r"
  by (auto simp: http_status_def envelope_ok_def split: pyval.splits option.splits)

lemma py_eq_int_code: "1 < code \<Longrightarrow> py_eq_int v code \<longleftrightarrow> v = PInt code"
  by (cases v) auto

lemma return_for_status_eq:
  assumes "envelope_ok r" and "1 < code"
  shows "return_for_status p code r =
           (if http_status r = Some (PInt code)
            then bind (translate_response p r) (\<lambda>c. Inr (Translated c))
            else Inr (Raw r))"
proof (cases r)
  case (PDict kvs)
  show ?thesis
  proof (cases "map_of kvs ''ResponseMetadata''")
    case None
    with PDict show ?thesis
      by (simp add: return_for_status_def http_status_def bind_def)
  next
    case (Some md)
    show ?thesis
    proof (cases md)
      case (PDict mds)
      with Some \<open>r = PDict kvs\<close> assms(2) show ?thesis
        by (cases "map_of mds ''HTTPStatusCode''")
           (auto simp: return_for_status_def http_status_def bind_def py_eq_int_code
              dest: map_of_SomeD)
    qed (use Some \<open>r = PDict kvs\<close> assms(1) in
          \<open>simp_all add: return_for_status_def http_status_def bind_def envelope_ok_def\<close>)
  qed
qed (use assms(1) in \<open>simp_all add: envelope_ok_def\<close>)

lemma run_op_unfold:
  "run_op p op n pol region kw =
     bind (get_boto3_client p region) (\<lambda>s3.
     bind (client_call s3 op n pol region kw) (return_for_status p (declared_code op)))"
  by (cases op)
     (simp_all add: create_container_def get_container_def delete_container_def
        get_container_acl_def put_container_acl_def put_container_policy_def
        get_container_policy_def delete_container_policy_def)

lemma declared_code_gt: "1 < declared_code op"
  by (cases op) simp_all


lemma const_resolves: "get_boto3_client (const_proxy r) ''eu-de'' = Inr (const_client r)"
  by (simp add: const_proxy_def stub_resolves)

lemma echo_call:
  "client_call (echo_client code) DeleteContainer ''bucket-a'' pol region kw =
     Inr (envelope code [(''Bucket'', PStr ''bucket-a'')])"
  "client_call (echo_client code) GetContainerAcl ''bucket-a'' pol region [] =
     Inr (envelope code [(''Bucket'', PStr ''bucket-a'')])"
  "client_call (echo_client code) CreateContainer ''bucket-a'' pol region [] =
     Inr (envelope code [(''Bucket'', PStr ''bucket-a''),
       (''CreateBucketConfiguration'', PDict [(''LocationConstraint'', PStr region)])])"
  by (simp_all add: echo_client_sel api_call_bucket_a call_kw_def)

section \<open>Status codes of the container methods\<close>

text \<open>
  C1, amended. For each of the eight container methods (\<open>create_container\<close>,
  \<open>get_container\<close>, \<open>get_container_acl\<close>, \<open>put_container_acl\<close>, \<open>put_container_policy\<close>,
  \<open>get_container_policy\<close> with 200; \<open>delete_container\<close> and \<open>delete_container_policy\<close>
  with 204): when the client is resolved and answers with a response \<open>r\<close> of the shape of
  a client response, the method returns the translation of \<open>r\<close> if and only if the status
  code in the metadata envelope of \<open>r\<close> is the integer declared for the method, and returns
  \<open>r\<close> itself, untranslated, for any other status. \<open>delete_object\<close> interprets no status
  code: it returns the raw response of the client for every status.
\<close>

theorem container_ops_success_only_on_declared_code:
  assumes "get_boto3_client p region = Inr s3"
    and "client_call s3 op n pol region kw = Inr r"
    and "envelope_ok r"
  shows "run_op p op n pol region kw =
           (if http_status r = Some (PInt (declared_code op))
            then bind (translate_response p r) (\<lambda>c. Inr (Translated c))
            else Inr (Raw r))
         \<and> (\<forall>r'. s3_delete_object s3 [(''Bucket'', PStr n), (''Key'', key)] = Inr r'
               \<longrightarrow> delete_object p n key region kw = Inr (Raw r'))"
proof
  show "run_op p op n pol region kw =
           (if http_status r = Some (PInt (declared_code op))
            then bind (translate_response p r) (\<lambda>c. Inr (Translated c))
            else Inr (Raw r))"
    using assms
    by (simp add: run_op_unfold bind_def return_for_status_eq declared_code_gt)
  show "\<forall>r'. s3_delete_object s3 [(''Bucket'', PStr n), (''Key'', key)] = Inr r'
           \<longrightarrow> delete_object p n key region kw = Inr (Raw r')"
    using assms(1) by (simp add: delete_object_def bind_def)
qed

text \<open>
  The theorem at a client that answers 204: \<open>delete_container\<close> translates the response,
  \<open>get_container_acl\<close> returns it raw.
\<close>

theorem container_ops_success_only_on_declared_code_witness:
  "get_boto3_client (echo_proxy 204) ''eu-de'' = Inr (echo_client 204)
   \<and> client_call (echo_client 204) DeleteContainer ''bucket-a'' PNone ''eu-de'' [] =
       Inr (envelope 204 [(''Bucket'', PStr ''bucket-a'')])
   \<and> client_call (echo_client 204) GetContainerAcl ''bucket-a'' PNone ''eu-de'' [] =
       Inr (envelope 204 [(''Bucket'', PStr ''bucket-a'')])
   \<and> envelope_ok (envelope 204 [(''Bucket'', PStr ''bucket-a'')])
   \<and> run_op (echo_proxy 204) DeleteContainer ''bucket-a'' PNone ''eu-de'' [] =
       Inr (Translated (envelope 204 [(''Bucket'', PStr ''bucket-a'')]))
   \<and> run_op (echo_proxy 204) GetContainerAcl ''bucket-a'' PNone ''eu-de'' [] =
       Inr (Raw (envelope 204 [(''Bucket'', PStr ''bucket-a'')]))"
proof -
  let ?r = "envelope 204 [(''Bucket'', PStr ''bucket-a'')]"
  have ok: "envelope_ok ?r"
    by (rule http_status_envelope_ok) (rule http_status_envelope)
  have tr: "translate_response (echo_proxy 204) = Inr"
    by (simp add: echo_proxy_def stub_proxy_sel)
  note d = container_ops_success_only_on_declared_code
    [where p = "echo_proxy 204" and region = "''eu-de''" and op = DeleteContainer
       and n = "''bucket-a''" and pol = PNone and kw = "[]" and key = PNone,
     OF echo_resolves echo_call(1) ok]
  note g = container_ops_success_only_on_declared_code
    [where p = "echo_proxy 204" and region = "''eu-de''" and op = GetContainerAcl
       and n = "''bucket-a''" and pol = PNone and kw = "[]" and key = PNone,
     OF echo_resolves echo_call(2) ok]
  have c1: "run_op (echo_proxy 204) DeleteContainer ''bucket-a'' PNone ''eu-de'' [] =
       Inr (Translated ?r)"
    using d by (simp add: http_status_envelope tr bind_def)
  have c2: "run_op (echo_proxy 204) GetContainerAcl ''bucket-a'' PNone ''eu-de'' [] =
       Inr (Raw ?r)"
    using g by (simp add: http_status_envelope)
  show ?thesis
    by (intro conjI echo_resolves echo_call ok c1 c2)
qed

text \<open>
  C1 as stated fails for \<open>delete_object\<close>: on a response with status 204, the code
  that \<open>delete_container\<close> takes as success on the same proxy, \<open>delete_object\<close> returns the
  raw response, as it does for every other status.
\<close>

theorem delete_object_ignores_status_counterexample:
  "delete_object (echo_proxy 204) ''bucket-a'' (PStr ''k'') ''eu-de'' [] =
     Inr (Raw (envelope 204 [(''Bucket'', PStr ''bucket-a''), (''Key'', PStr ''k'')]))
   \<and> delete_container (echo_proxy 204) ''bucket-a'' ''eu-de'' =
     Inr (Translated (envelope 204 [(''Bucket'', PStr ''bucket-a'')]))"
  by (simp add: delete_object_def delete_container_def echo_resolves bind_def
      echo_client_sel api_call_bucket_a return_for_status_eq http_status_envelope
      http_status_envelope_ok echo_proxy_def stub_proxy_sel stub_resolves)

lemma const_call:
  "client_call (const_client r) op n pol region [] = Inr r"
  by (cases op) (simp_all add: const_client_def stub_client_sel call_kw_def)

lemma echo_proxy_translate: "translate_response (echo_proxy code) = Inr"
  by (simp add: echo_proxy_def stub_proxy_sel)

lemma const_proxy_translate: "translate_response (const_proxy r) = Inr"
  by (simp add: const_proxy_def stub_proxy_sel)

section \<open>\<open>delete_container\<close> on status 200\<close>

text \<open>
  C5. When the client is resolved and answers \<open>delete_bucket\<close> with a response whose
  envelope carries status 200, not 204, \<open>delete_container\<close> returns normally, with the raw
  response: no exception, no translated container.
\<close>

theorem delete_container_status_200_returns_raw:
  assumes "get_boto3_client p region = Inr s3"
    and "s3_delete_bucket s3 [(''Bucket'', PStr container_name)] = Inr r"
    and "http_status r = Some (PInt 200)"
  shows "delete_container p container_name region = Inr (Raw r)"
  using assms
  by (simp add: delete_container_def bind_def return_for_status_eq http_status_envelope_ok)

text \<open>The theorem at a client that answers 200 to every call.\<close>

theorem delete_container_status_200_returns_raw_witness:
  "get_boto3_client (echo_proxy 200) ''eu-de'' = Inr (echo_client 200)
   \<and> s3_delete_bucket (echo_client 200) [(''Bucket'', PStr ''bucket-a'')] =
       Inr (envelope 200 [(''Bucket'', PStr ''bucket-a'')])
   \<and> http_status (envelope 200 [(''Bucket'', PStr ''bucket-a'')]) = Some (PInt 200)
   \<and> delete_container (echo_proxy 200) ''bucket-a'' ''eu-de'' =
       Inr (Raw (envelope 200 [(''Bucket'', PStr ''bucket-a'')]))"
proof -
  have call: "s3_delete_bucket (echo_client 200) [(''Bucket'', PStr ''bucket-a'')] =
       Inr (envelope 200 [(''Bucket'', PStr ''bucket-a'')])"
    by (simp add: echo_client_sel api_call_bucket_a)
  show ?thesis
    by (intro conjI echo_resolves call http_status_envelope
        delete_container_status_200_returns_raw [OF echo_resolves call http_status_envelope])
qed

section \<open>Responses without a metadata envelope\<close>

text \<open>
  C2, amended. When the client is resolved and answers one of the eight container methods
  with a dictionary that has no \<^verbatim>\<open>ResponseMetadata\<close> entry, the method returns normally
  and its value is that dictionary, unchanged: never a translated container, and no
  failure either.
\<close>

theorem missing_envelope_returns_raw_response:
  assumes "get_boto3_client p region = Inr s3"
    and "client_call s3 op n pol region kw = Inr (PDict kvs)"
    and "map_of kvs ''ResponseMetadata'' = None"
  shows "run_op p op n pol region kw = Inr (Raw (PDict kvs))"
  using assms
  by (simp add: run_op_unfold bind_def return_for_status_def)

text \<open>The theorem at \<open>create_container\<close>, for a client that answers with a location only.\<close>

theorem missing_envelope_returns_raw_response_witness:
  "get_boto3_client (const_proxy (PDict [(''Location'', PStr ''/bucket-a'')])) ''eu-de'' =
     Inr (const_client (PDict [(''Location'', PStr ''/bucket-a'')]))
   \<and> client_call (const_client (PDict [(''Location'', PStr ''/bucket-a'')]))
         CreateContainer ''bucket-a'' PNone ''eu-de'' [] =
       Inr (PDict [(''Location'', PStr ''/bucket-a'')])
   \<and> map_of [(''Location'', PStr ''/bucket-a'')] ''ResponseMetadata'' = None
   \<and> run_op (const_proxy (PDict [(''Location'', PStr ''/bucket-a'')]))
         CreateContainer ''bucket-a'' PNone ''eu-de'' [] =
       Inr (Raw (PDict [(''Location'', PStr ''/bucket-a'')]))"
proof -
  have m: "map_of [(''Location'', PStr ''/bucket-a'')] ''ResponseMetadata'' = None"
    by simp
  show ?thesis
    by (intro conjI const_resolves const_call m
        missing_envelope_returns_raw_response [OF const_resolves const_call m])
qed

text \<open>
  C2 as stated fails: for the empty response, which has no envelope, \<open>create_container\<close>
  raises nothing. It returns the response as an ordinary value, as it does for an
  unexpected status.
\<close>

theorem missing_envelope_is_no_failure_counterexample:
  "create_container (const_proxy (PDict [])) ''bucket-a'' ''eu-de'' [] = Inr (Raw (PDict []))
   \<and> \<not> isl (create_container (const_proxy (PDict [])) ''bucket-a'' ''eu-de'' [])"
  by (simp add: create_container_def const_resolves bind_def const_client_def stub_client_sel
      call_kw_def return_for_status_def)

section \<open>\<open>create_container\<close> on status 200\<close>

text \<open>
  C6, amended. When the client is resolved and answers \<open>create_bucket\<close> with a response
  whose envelope carries status 200, \<open>create_container\<close> returns what
  \<^verbatim>\<open>Container.new()._translate_response(response)\<close> gives (or raises what it raises), and
  not the raw response. The translation sees the response only: the name passed to
  \<open>create_container\<close> reaches the result through the response of the client, or not at
  all.
\<close>

theorem create_container_status_200_translates_response:
  assumes "get_boto3_client p region = Inr s3"
    and "call_kw (s3_create_bucket s3)
           [(''Bucket'', PStr container_name),
            (''CreateBucketConfiguration'', PDict [(''LocationConstraint'', PStr region)])] kw
         = Inr r"
    and "http_status r = Some (PInt 200)"
  shows "create_container p container_name region kw =
           bind (translate_response p r) (\<lambda>c. Inr (Translated c))
         \<and> create_container p container_name region kw \<noteq> Inr (Raw r)"
proof -
  have "create_container p container_name region kw =
           bind (translate_response p r) (\<lambda>c. Inr (Translated c))"
    using assms
    by (simp add: create_container_def bind_def return_for_status_eq http_status_envelope_ok)
  then show ?thesis
    by (cases "translate_response p r") (simp_all add: bind_def)
qed

text \<open>The theorem for \<^verbatim>\<open>bucket-a\<close> in \<^verbatim>\<open>eu-de\<close>, at a client that answers 200.\<close>

theorem create_container_status_200_translates_response_witness:
  "get_boto3_client (echo_proxy 200) ''eu-de'' = Inr (echo_client 200)
   \<and> call_kw (s3_create_bucket (echo_client 200))
         [(''Bucket'', PStr ''bucket-a''),
          (''CreateBucketConfiguration'', PDict [(''LocationConstraint'', PStr ''eu-de'')])] []
       = Inr (envelope 200 [(''Bucket'', PStr ''bucket-a''),
          (''CreateBucketConfiguration'', PDict [(''LocationConstraint'', PStr ''eu-de'')])])
   \<and> http_status (envelope 200 [(''Bucket'', PStr ''bucket-a''),
          (''CreateBucketConfiguration'', PDict [(''LocationConstraint'', PStr ''eu-de'')])])
       = Some (PInt 200)
   \<and> create_container (echo_proxy 200) ''bucket-a'' ''eu-de'' [] =
       Inr (Translated (envelope 200 [(''Bucket'', PStr ''bucket-a''),
          (''CreateBucketConfiguration'', PDict [(''LocationConstraint'', PStr ''eu-de'')])]))"
proof -
  let ?r = "envelope 200 [(''Bucket'', PStr ''bucket-a''),
          (''CreateBucketConfiguration'', PDict [(''LocationConstraint'', PStr ''eu-de'')])]"
  have call: "call_kw (s3_create_bucket (echo_client 200))
         [(''Bucket'', PStr ''bucket-a''),
          (''CreateBucketConfiguration'', PDict [(''LocationConstraint'', PStr ''eu-de'')])] []
       = Inr ?r"
    by (simp add: echo_client_sel api_call_bucket_a call_kw_def)
  have res: "create_container (echo_proxy 200) ''bucket-a'' ''eu-de'' [] = Inr (Translated ?r)"
    using create_container_status_200_translates_response
      [OF echo_resolves call http_status_envelope]
    by (simp add: echo_proxy_translate bind_def)
  show ?thesis
    by (intro conjI echo_resolves call http_status_envelope res)
qed

text \<open>
  C6 as stated fails: let the client answer every \<open>create_bucket\<close> with status 200 and
  an envelope, and nothing else. Whatever the translation and whatever is read as the
  name of its result, the calls for \<^verbatim>\<open>bucket-a\<close> and for \<^verbatim>\<open>bucket-b\<close> return the same
  value, so the translated name is not the requested name for every call.
\<close>

theorem create_container_name_not_from_argument_counterexample:
  "\<not> (\<exists>(tr :: pyval \<Rightarrow> 'c result) (name_of :: 'c \<Rightarrow> string).
        \<forall>n. \<exists>c. create_container
                  (stub_proxy otc_url otc_keys tr (const_client (envelope 200 [])))
                  n ''eu-de'' [] = Inr (Translated c)
               \<and> name_of c = n)"
proof
  assume "\<exists>(tr :: pyval \<Rightarrow> 'c result) (name_of :: 'c \<Rightarrow> string).
        \<forall>n. \<exists>c. create_container
                  (stub_proxy otc_url otc_keys tr (const_client (envelope 200 [])))
                  n ''eu-de'' [] = Inr (Translated c)
               \<and> name_of c = n"
  then obtain tr :: "pyval \<Rightarrow> 'c result" and name_of :: "'c \<Rightarrow> string"
    where all: "\<forall>n. \<exists>c. create_container
                  (stub_proxy otc_url otc_keys tr (const_client (envelope 200 [])))
                  n ''eu-de'' [] = Inr (Translated c)
               \<and> name_of c = n"
    by blast
  have same: "create_container (stub_proxy otc_url otc_keys tr (const_client (envelope 200 [])))
                 n ''eu-de'' [] =
              bind (tr (envelope 200 [])) (\<lambda>c. Inr (Translated c))" for n
    by (simp add: create_container_def stub_resolves bind_def const_client_def stub_client_sel
        call_kw_def return_for_status_eq http_status_envelope http_status_envelope_ok
        stub_proxy_sel)
  from all obtain a where a: "bind (tr (envelope 200 [])) (\<lambda>c. Inr (Translated c)) = Inr (Translated a)"
    "name_of a = ''bucket-a''"
    unfolding same by blast
  from all obtain b where b: "bind (tr (envelope 200 [])) (\<lambda>c. Inr (Translated c)) = Inr (Translated b)"
    "name_of b = ''bucket-b''"
    unfolding same by blast
  from a(1) b(1) have "a = b" by simp
  with a(2) b(2) show False by simp
qed

lemma empty_keys_endpoint:
  "get_container_endpoint empty_keys_proxy ''eu-de'' = Inr ''https://obs.eu-de.otc.t-systems.com''"
  by (simp add: empty_keys_proxy_def otc_endpoint)

lemma basename_split:
  "CHR ''/'' \<notin> set (basename f)"
  "\<exists>d. f = d @ basename f \<and> (d = [] \<or> last d = CHR ''/'')"
proof -
  let ?P = "\<lambda>c. c \<noteq> CHR ''/''"
  show "CHR ''/'' \<notin> set (basename f)"
    by (auto simp: basename_def dest: set_takeWhileD)
  have "rev (dropWhile ?P (rev f)) @ rev (takeWhile ?P (rev f)) =
          rev (takeWhile ?P (rev f) @ dropWhile ?P (rev f))"
    by (simp only: rev_append)
  also have "\<dots> = f"
    by (simp only: takeWhile_dropWhile_id rev_rev_ident)
  finally have split: "f = rev (dropWhile ?P (rev f)) @ basename f"
    by (simp only: basename_def)
  have "last (rev (dropWhile ?P (rev f))) = CHR ''/''" if "dropWhile ?P (rev f) \<noteq> []"
    using that hd_dropWhile [of ?P "rev f"] by (simp add: last_rev)
  with split show "\<exists>d. f = d @ basename f \<and> (d = [] \<or> last d = CHR ''/'')"
    by (intro exI [of _ "rev (dropWhile ?P (rev f))"]) auto
qed

section \<open>Keys that are empty strings\<close>

text \<open>
  C3. The code at the input of the claim: when the connection gives the empty string for
  both keys and the endpoint is well formed, \<open>_set_ak_sk_keys\<close> returns \<^verbatim>\<open>None\<close> and
  \<open>get_boto3_client\<close> fails with the \<open>TypeError\<close> of unpacking \<^verbatim>\<open>None\<close>. The claim asks
  for a credential error and no failure of this kind.
\<close>

theorem empty_keys_unpack_none:
  assumes "get_ak_sk p = Some (PStr [], PStr [])"
    and "get_container_endpoint p region = Inr endpoint"
  shows "set_ak_sk_keys p = Inr None \<and> get_boto3_client p region = Inl TypeError"
  using assms by (simp add: set_ak_sk_keys_def get_boto3_client_def bind_def)

text \<open>The theorem at the example proxy with empty keys.\<close>

theorem empty_keys_unpack_none_witness:
  "get_ak_sk empty_keys_proxy = Some (PStr [], PStr [])
   \<and> get_container_endpoint empty_keys_proxy ''eu-de'' =
       Inr ''https://obs.eu-de.otc.t-systems.com''
   \<and> set_ak_sk_keys empty_keys_proxy = Inr None
   \<and> get_boto3_client empty_keys_proxy ''eu-de'' = Inl TypeError"
proof -
  have k: "get_ak_sk empty_keys_proxy = Some (PStr [], PStr [])"
    by (simp add: empty_keys_proxy_def stub_proxy_sel)
  from empty_keys_unpack_none [OF k empty_keys_endpoint] k empty_keys_endpoint
  show ?thesis by simp
qed

section \<open>The call of \<^verbatim>\<open>upload_file\<close>\<close>

text \<open>
  C7. The code at the input of the claim: \<open>upload_object\<close> derives the key, the base
  name of the file when no key is given, and then calls \<^verbatim>\<open>upload_file\<close> of the boto3
  client with the keyword \<^verbatim>\<open>Fileobj\<close>, which is no parameter of that method. For every
  boto3 client, every file name, every key and all options the call fails with
  \<open>TypeError\<close> when the arguments are bound: nothing is uploaded, under no key. The
  claim asks for an upload under the base name.
\<close>

theorem upload_object_unexpected_keyword:
  assumes "get_boto3_client p region = Inr (boto3_s3_client arn_ok service)"
  shows "upload_object p container_name file_name region key kw = Inl TypeError"
  using assms
  by (simp add: upload_object_def bind_def call_kw_def boto3_s3_client_sel
      bind_upload_file_def upload_file_parameters_def)

text \<open>
  The theorem for the file \<^verbatim>\<open>/tmp/data/report.csv\<close> without a key, at a boto3 client over
  a service that answers 200: the key derived is \<^verbatim>\<open>report.csv\<close>, the call fails, and the
  same client called with \<^verbatim>\<open>Filename\<close> uploads under that key.
\<close>

theorem upload_object_unexpected_keyword_witness:
  "get_boto3_client (echo_proxy 200) ''eu-de'' =
     Inr (boto3_s3_client (\<lambda>arn. False) (echo_service 200))
   \<and> upload_key ''/tmp/data/report.csv'' PNone = PStr ''report.csv''
   \<and> upload_object (echo_proxy 200) ''bucket-a'' ''/tmp/data/report.csv'' ''eu-de'' PNone []
       = Inl TypeError
   \<and> s3_upload_file (echo_client 200)
         [(''Filename'', PStr ''/tmp/data/report.csv''), (''Bucket'', PStr ''bucket-a''),
          (''Key'', PStr ''report.csv'')]
       = Inr (envelope 200
           [(''Filename'', PStr ''/tmp/data/report.csv''), (''Bucket'', PStr ''bucket-a''),
            (''Key'', PStr ''report.csv'')])"
proof -
  have r: "get_boto3_client (echo_proxy 200) ''eu-de'' =
     Inr (boto3_s3_client (\<lambda>arn. False) (echo_service 200))"
    using echo_resolves [of 200] by (simp only: echo_client_def)
  have k: "upload_key ''/tmp/data/report.csv'' PNone = PStr ''report.csv''"
    by (simp add: upload_key_def basename_def)
  have u: "s3_upload_file (echo_client 200)
         [(''Filename'', PStr ''/tmp/data/report.csv''), (''Bucket'', PStr ''bucket-a''),
          (''Key'', PStr ''report.csv'')]
       = Inr (envelope 200
           [(''Filename'', PStr ''/tmp/data/report.csv''), (''Bucket'', PStr ''bucket-a''),
            (''Key'', PStr ''report.csv'')])"
    by (simp add: echo_client_sel bind_upload_file_def upload_file_parameters_def)
  show ?thesis
    by (intro conjI r k u upload_object_unexpected_keyword [OF r])
qed

lemma translate_buckets_all:
  assumes "\<forall>b\<in>set bs. \<exists>c. translate_container_response p b = Inr c"
  shows "\<exists>cs. translate_buckets p bs = (cs, None)
              \<and> map Inr cs = map (translate_container_response p) bs"
  using assms
proof (induction bs)
  case Nil
  then show ?case by simp
next
  case (Cons b bs)
  then obtain c cs where "translate_container_response p b = Inr c"
    and "translate_buckets p bs = (cs, None)"
    and "map Inr cs = map (translate_container_response p) bs"
    by auto
  then show ?case by simp
qed

section \<open>Names that are empty\<close>

text \<open>
  C8. The ACL and policy methods (\<open>get_container_acl\<close>, \<open>put_container_acl\<close>,
  \<open>get_container_policy\<close>, \<open>put_container_policy\<close>, \<open>delete_container_policy\<close>) called
  with the empty container name fail before anything is sent. The methods have no check
  of their own: they pass the name to the boto3 client as \<^verbatim>\<open>Bucket\<close>, and the client
  validates it before it builds the request. For every boto3 client, whatever the service
  behind it would answer, the call fails with \<^verbatim>\<open>ParamValidationError\<close>, or with the
  \<open>TypeError\<close> of a keyword given twice when the options name \<^verbatim>\<open>Bucket\<close> (or \<^verbatim>\<open>Policy\<close>,
  for \<open>put_container_policy\<close>) again.
\<close>

theorem acl_policy_ops_reject_empty_name:
  assumes "get_boto3_client p region = Inr (boto3_s3_client arn_ok service)"
  shows "get_container_acl p [] region kw =
           (if ''Bucket'' \<in> set (map fst kw) then Inl TypeError
            else Inl (ClientError ''ParamValidationError''))
         \<and> put_container_acl p [] region kw =
           (if ''Bucket'' \<in> set (map fst kw) then Inl TypeError
            else Inl (ClientError ''ParamValidationError''))
         \<and> get_container_policy p [] region kw =
           (if ''Bucket'' \<in> set (map fst kw) then Inl TypeError
            else Inl (ClientError ''ParamValidationError''))
         \<and> put_container_policy p [] policy region kw =
           (if ''Bucket'' \<in> set (map fst kw) \<or> ''Policy'' \<in> set (map fst kw) then Inl TypeError
            else Inl (ClientError ''ParamValidationError''))
         \<and> delete_container_policy p [] region kw =
           (if ''Bucket'' \<in> set (map fst kw) then Inl TypeError
            else Inl (ClientError ''ParamValidationError''))"
  using assms
  by (simp add: get_container_acl_def put_container_acl_def get_container_policy_def
      put_container_policy_def delete_container_policy_def bind_def call_kw_def
      boto3_s3_client_sel api_call_empty_name)

text \<open>
  The theorem at a boto3 client over a service that answers 200 to every request: with
  the empty name \<open>put_container_policy\<close> and \<open>get_container_acl\<close> fail in the validation,
  and with the name \<^verbatim>\<open>bucket-a\<close> the request of \<open>get_container_acl\<close> is sent and answered.
\<close>

theorem acl_policy_ops_reject_empty_name_witness:
  "get_boto3_client (echo_proxy 200) ''eu-de'' =
     Inr (boto3_s3_client (\<lambda>arn. False) (echo_service 200))
   \<and> put_container_policy (echo_proxy 200) [] (PStr ''{}'') ''eu-de'' [] =
       Inl (ClientError ''ParamValidationError'')
   \<and> get_container_acl (echo_proxy 200) [] ''eu-de'' [] =
       Inl (ClientError ''ParamValidationError'')
   \<and> get_container_acl (echo_proxy 200) ''bucket-a'' ''eu-de'' [] =
       Inr (Translated (envelope 200 [(''Bucket'', PStr ''bucket-a'')]))"
proof -
  have r: "get_boto3_client (echo_proxy 200) ''eu-de'' =
     Inr (boto3_s3_client (\<lambda>arn. False) (echo_service 200))"
    using echo_resolves [of 200] by (simp only: echo_client_def)
  note t = acl_policy_ops_reject_empty_name
    [where p = "echo_proxy 200" and region = "''eu-de''" and kw = "[]"
       and policy = "PStr ''{}''", OF r]
  have e1: "put_container_policy (echo_proxy 200) [] (PStr ''{}'') ''eu-de'' [] =
       Inl (ClientError ''ParamValidationError'')"
    using t by simp
  have e2: "get_container_acl (echo_proxy 200) [] ''eu-de'' [] =
       Inl (ClientError ''ParamValidationError'')"
    using t by simp
  have v: "get_container_acl (echo_proxy 200) ''bucket-a'' ''eu-de'' [] =
       Inr (Translated (envelope 200 [(''Bucket'', PStr ''bucket-a'')]))"
    by (simp add: get_container_acl_def echo_resolves bind_def echo_client_sel call_kw_def
        api_call_bucket_a return_for_status_eq http_status_envelope http_status_envelope_ok
        echo_proxy_translate)
  show ?thesis
    by (intro conjI r e1 e2 v)
qed

section \<open>Listings without buckets\<close>

text \<open>
  C10. When the client is resolved and answers \<open>list_buckets\<close> with a dictionary: if the
  dictionary has no entry \<^verbatim>\<open>Buckets\<close>, iterating \<open>containers\<close> yields nothing and fails
  with the \<open>TypeError\<close> of iterating over \<^verbatim>\<open>None\<close>, and does not end as an empty
  sequence; if \<^verbatim>\<open>Buckets\<close> is a list and every bucket translates, the iteration ends
  normally and has yielded the translations of the buckets, one for each, in order.
\<close>

theorem containers_fails_without_buckets:
  assumes "get_boto3_client p region = Inr s3"
    and "s3_list_buckets s3 = Inr (PDict kvs)"
  shows "(map_of kvs ''Buckets'' = None \<longrightarrow>
            containers p region query_kw = ([], Some TypeError)
            \<and> containers p region query_kw \<noteq> ([], None))
         \<and> (\<forall>bs. map_of kvs ''Buckets'' = Some (PList bs)
               \<and> (\<forall>b\<in>set bs. \<exists>c. translate_container_response p b = Inr c) \<longrightarrow>
               (\<exists>cs. containers p region query_kw = (cs, None)
                     \<and> length cs = length bs
                     \<and> map Inr cs = map (translate_container_response p) bs))"
proof (intro conjI impI allI)
  assume "map_of kvs ''Buckets'' = None"
  with assms show "containers p region query_kw = ([], Some TypeError)"
    by (simp add: containers_def bind_def)
  then show "containers p region query_kw \<noteq> ([], None)"
    by simp
next
  fix bs
  assume b: "map_of kvs ''Buckets'' = Some (PList bs)
               \<and> (\<forall>b\<in>set bs. \<exists>c. translate_container_response p b = Inr c)"
  with assms have "containers p region query_kw = translate_buckets p bs"
    by (simp add: containers_def bind_def)
  moreover from b obtain cs where "translate_buckets p bs = (cs, None)"
    and m: "map Inr cs = map (translate_container_response p) bs"
    using translate_buckets_all [of bs p] by blast
  moreover from m have "length cs = length bs"
    by (rule map_eq_imp_length_eq)
  ultimately show "\<exists>cs. containers p region query_kw = (cs, None)
                     \<and> length cs = length bs
                     \<and> map Inr cs = map (translate_container_response p) bs"
    using m by auto
qed

text \<open>The theorem at a listing without \<^verbatim>\<open>Buckets\<close> and at a listing of two buckets.\<close>

theorem containers_fails_without_buckets_witness:
  "get_boto3_client (const_proxy no_buckets) ''eu-de'' = Inr (const_client no_buckets)
   \<and> containers (const_proxy no_buckets) ''eu-de'' [] = ([], Some TypeError)
   \<and> get_boto3_client (const_proxy two_buckets) ''eu-de'' = Inr (const_client two_buckets)
   \<and> containers (const_proxy two_buckets) ''eu-de'' [] =
       ([PDict [(''Name'', PStr ''bucket-a'')], PDict [(''Name'', PStr ''bucket-b'')]], None)"
proof -
  have l: "s3_list_buckets (const_client r) = Inr r" for r
    by (simp add: const_client_def stub_client_sel)
  have tc: "translate_container_response (const_proxy r) = Inr" for r
    by (simp add: const_proxy_def stub_proxy_sel)
  note n = containers_fails_without_buckets
    [where p = "const_proxy no_buckets" and region = "''eu-de''" and query_kw = "[]",
     OF const_resolves, unfolded l no_buckets_def envelope_def, OF refl]
  note t = containers_fails_without_buckets
    [where p = "const_proxy two_buckets" and region = "''eu-de''" and query_kw = "[]",
     OF const_resolves, unfolded l two_buckets_def envelope_def, OF refl]
  have c1: "containers (const_proxy no_buckets) ''eu-de'' [] = ([], Some TypeError)"
    using n by (simp add: no_buckets_def envelope_def)
  from t have "\<exists>cs. containers (const_proxy two_buckets) ''eu-de'' [] = (cs, None)
      \<and> length cs = 2
      \<and> map Inr cs = map (translate_container_response (const_proxy two_buckets))
           [PDict [(''Name'', PStr ''bucket-a'')], PDict [(''Name'', PStr ''bucket-b'')]]"
    by (simp add: two_buckets_def envelope_def tc)
  then obtain cs where cs: "containers (const_proxy two_buckets) ''eu-de'' [] = (cs, None)"
    and "map Inr cs = [Inr (PDict [(''Name'', PStr ''bucket-a'')]) :: pyval result,
                       Inr (PDict [(''Name'', PStr ''bucket-b'')])]"
    by (auto simp: tc)
  then have "cs = [PDict [(''Name'', PStr ''bucket-a'')], PDict [(''Name'', PStr ''bucket-b'')]]"
    by (auto simp: map_eq_Cons_conv)
  with cs c1 show ?thesis
    by (simp add: const_resolves)
qed

section \<open>File objects\<close>

lemma fold_max_ge: "a \<le> fold max xs (a::nat)" "x \<in> set xs \<Longrightarrow> x \<le> fold max xs a"
proof (induction xs arbitrary: a)
  case Nil
  { case 1 show ?case by simp }
  { case 2 then show ?case by simp }
next
  case (Cons y ys)
  { case 1
    have "a \<le> max y a" by simp
    also have "\<dots> \<le> fold max ys (max y a)" by (rule Cons.IH(1))
    finally show ?case by simp }
  { case 2
    show ?case
    proof (cases "x = y")
      case True
      have "x \<le> max y a" using True by simp
      also have "\<dots> \<le> fold max ys (max y a)" by (rule Cons.IH(1))
      finally show ?thesis by simp
    next
      case False
      with 2 have "x \<in> set ys" by simp
      then show ?thesis using Cons.IH(2) by simp
    qed }
qed

lemma new_fd_fresh: "h \<in> set fds \<Longrightarrow> fst h \<noteq> new_fd fds"
proof
  assume h: "h \<in> set fds" and eq: "fst h = new_fd fds"
  from h have "fst h \<in> set (map fst fds)" by (simp add: image_iff) blast
  then have "fst h \<le> fold max (map fst fds) 0" by (rule fold_max_ge(2))
  with eq show False by (simp add: new_fd_def)
qed

lemma close_after_open:
  "filter (\<lambda>h. fst h \<noteq> new_fd fds) fds = fds"
  by (simp add: filter_id_conv new_fd_fresh)

lemma opened_after_with:
  "open_wb file_name s = Inr (f, s1) \<Longrightarrow> opened (close_fd f (write_fd f data s1)) = opened s"
  by (auto simp: open_wb_def close_fd_def write_fd_def close_after_open split: if_splits)

lemma files_after_with:
  "open_wb file_name s = Inr (f, s1) \<Longrightarrow>
     files (close_fd f (write_fd f data s1)) file_name = Some data"
  by (auto simp: open_wb_def close_fd_def write_fd_def split: if_splits)

section \<open>Downloads\<close>

text \<open>
  C4, amended. \<open>download_object\<close> leaves open exactly the file objects that were open
  before the call, on every path: when the client cannot be resolved, when the file
  cannot be opened, when the transfer ends, and when the transfer raises. When the
  transfer raises after it wrote some data, \<open>download_object\<close> raises the same
  exception, unchanged, and the file holds the data written so far.
\<close>

theorem download_object_closes_file:
  "opened (snd (download_object p file_name container_name region key s)) = opened s
   \<and> (\<forall>s3 data e.
         get_boto3_client p region = Inr s3 \<and> can_open s file_name
         \<and> s3_download_fileobj s3 (PStr container_name) key = (data, Some e) \<longrightarrow>
         fst (download_object p file_name container_name region key s) = Inl e
         \<and> files (snd (download_object p file_name container_name region key s)) file_name
             = Some data)"
proof (intro conjI allI impI)
  show "opened (snd (download_object p file_name container_name region key s)) = opened s"
    by (auto simp: download_object_def opened_after_with
        split: sum.splits prod.splits option.splits)
next
  fix s3 data e
  assume a: "get_boto3_client p region = Inr s3 \<and> can_open s file_name
         \<and> s3_download_fileobj s3 (PStr container_name) key = (data, Some e)"
  then obtain f s1 where o: "open_wb file_name s = Inr (f, s1)"
    by (simp add: open_wb_def)
  with a show "fst (download_object p file_name container_name region key s) = Inl e"
    by (simp add: download_object_def)
  from a o show "files (snd (download_object p file_name container_name region key s)) file_name
             = Some data"
    by (simp add: download_object_def files_after_with)
qed

text \<open>
  The theorem at a transfer that writes \<^verbatim>\<open>part\<close> and then raises \<open>OSError\<close>, with one
  other file object open.
\<close>

theorem download_object_closes_file_witness:
  "get_boto3_client (failing_download_proxy ''part'' OSError) ''eu-de'' =
     Inr (stub_client (\<lambda>kw. Inr (envelope 200 kw)) (Inr no_buckets) (''part'', Some OSError))
   \<and> can_open busy_fs ''out.bin''
   \<and> opened (snd (download_object (failing_download_proxy ''part'' OSError)
        ''out.bin'' ''bucket-a'' ''eu-de'' (PStr ''k'') busy_fs)) = [(3, ''app.log'')]
   \<and> fst (download_object (failing_download_proxy ''part'' OSError)
        ''out.bin'' ''bucket-a'' ''eu-de'' (PStr ''k'') busy_fs) = Inl OSError
   \<and> files (snd (download_object (failing_download_proxy ''part'' OSError)
        ''out.bin'' ''bucket-a'' ''eu-de'' (PStr ''k'') busy_fs)) ''out.bin'' = Some ''part''"
proof -
  let ?s3 = "stub_client (\<lambda>kw. Inr (envelope 200 kw)) (Inr no_buckets) (''part'', Some OSError)"
  have r: "get_boto3_client (failing_download_proxy ''part'' OSError) ''eu-de'' = Inr ?s3"
    by (simp add: failing_download_proxy_def stub_resolves)
  have c: "can_open busy_fs ''out.bin''"
    by (simp add: busy_fs_def)
  have d: "s3_download_fileobj ?s3 (PStr ''bucket-a'') (PStr ''k'') = (''part'', Some OSError)"
    by (simp add: stub_client_sel)
  have o: "opened busy_fs = [(3, ''app.log'')]"
    by (simp add: busy_fs_def)
  note t = download_object_closes_file
    [where p = "failing_download_proxy ''part'' OSError" and file_name = "''out.bin''"
       and container_name = "''bucket-a''" and region = "''eu-de''" and key = "PStr ''k''"
       and s = busy_fs]
  from t r c d o show ?thesis
    by auto
qed

text \<open>
  C4 as stated fails in its error: no transfer error is raised. A transfer that fails
  with \<open>OSError\<close> after a partial write makes \<open>download_object\<close> fail with \<open>OSError\<close>, and
  one that fails with an exception of the client makes it fail with that exception.
\<close>

theorem download_error_is_not_wrapped_counterexample:
  "fst (download_object (failing_download_proxy ''part'' OSError)
        ''out.bin'' ''bucket-a'' ''eu-de'' (PStr ''k'') busy_fs) = Inl OSError
   \<and> fst (download_object (failing_download_proxy ''part'' (ClientError ''IncompleteReadError''))
        ''out.bin'' ''bucket-a'' ''eu-de'' (PStr ''k'') busy_fs)
       = Inl (ClientError ''IncompleteReadError'')"
  by (simp add: download_object_def failing_download_proxy_def stub_resolves stub_client_sel
      open_wb_def busy_fs_def)

section \<open>Formats without conversions, and the region placeholder\<close>

lemma fmt_step_lit:
  "mode st = Lit \<Longrightarrow> c \<noteq> CHR ''%'' \<Longrightarrow> fmt_step m st c = Inr (st\<lparr>out := out st @ [c]\<rparr>)"
  by (simp add: fmt_step_def)

lemma fmt_run_lit_append:
  "mode st = Lit \<Longrightarrow> CHR ''%'' \<notin> set a \<Longrightarrow>
     fmt_run m st (a @ rest) = fmt_run m (st\<lparr>out := out st @ a\<rparr>) rest"
proof (induction a arbitrary: st)
  case Nil
  then show ?case by simp
next
  case (Cons c cs)
  from Cons.prems have c: "c \<noteq> CHR ''%''" and cs: "CHR ''%'' \<notin> set cs"
    by auto
  have "fmt_run m st ((c # cs) @ rest) = fmt_run m (st\<lparr>out := out st @ [c]\<rparr>) (cs @ rest)"
    using Cons.prems(1) c by (simp add: fmt_step_lit)
  also have "\<dots> = fmt_run m (st\<lparr>out := out st @ [c]\<rparr>\<lparr>out := out (st\<lparr>out := out st @ [c]\<rparr>) @ cs\<rparr>) rest"
    using Cons.prems(1) cs by (intro Cons.IH) simp_all
  finally show ?case by simp
qed

lemma fmt_run_lit:
  "mode st = Lit \<Longrightarrow> CHR ''%'' \<notin> set a \<Longrightarrow> fmt_run m st a = Inr (out st @ a)"
  using fmt_run_lit_append [of st a m "[]"] by simp

lemma fmt_run_placeholder:
  assumes "mode st = Lit" and "map_of m ''region_name'' = Some v"
  shows "\<exists>st'. fmt_run m st (''%(region_name)s'' @ rest) = fmt_run m st' rest
               \<and> mode st' = Lit \<and> out st' = out st @ v"
proof -
  let ?st' = "st\<lparr>ljust := False, width := None, prec := None, args := ArgValue v,
                  out := out st @ v, avail := False, mode := Lit\<rparr>"
  have "fmt_run m st (''%(region_name)s'' @ rest) = fmt_run m ?st' rest"
    using assms
    by (simp add: fmt_step_def flags_step_def width_step_def prec_step_def lenmod_step_def
        conv_step_def emit_def pad_def arg_text_def is_digit_def)
  moreover have "mode ?st' = Lit" and "out ?st' = out st @ v"
    by simp_all
  ultimately show ?thesis
    by blast
qed

lemma py_percent_plain:
  "CHR ''%'' \<notin> set fmt \<Longrightarrow> py_percent fmt m = Inr fmt"
  by (simp add: py_percent_def fmt_run_lit fmt_init_def)

lemma py_percent_region:
  assumes "CHR ''%'' \<notin> set a" and "CHR ''%'' \<notin> set b"
  shows "py_percent (a @ ''%(region_name)s'' @ b) [(''region_name'', region)] =
           Inr (a @ region @ b)"
proof -
  let ?m = "[(''region_name'', region)]"
  have "fmt_run ?m fmt_init (a @ ''%(region_name)s'' @ b) =
          fmt_run ?m (fmt_init\<lparr>out := out fmt_init @ a\<rparr>) (''%(region_name)s'' @ b)"
    using assms(1) by (intro fmt_run_lit_append) (simp_all add: fmt_init_def)
  moreover obtain st' where
    "fmt_run ?m (fmt_init\<lparr>out := out fmt_init @ a\<rparr>) (''%(region_name)s'' @ b) =
       fmt_run ?m st' b"
    and "mode st' = Lit" and "out st' = out (fmt_init\<lparr>out := out fmt_init @ a\<rparr>) @ region"
    using fmt_run_placeholder [of "fmt_init\<lparr>out := out fmt_init @ a\<rparr>" ?m region b]
    by (auto simp: fmt_init_def)
  moreover from this assms(2) have "fmt_run ?m st' b = Inr (out st' @ b)"
    by (intro fmt_run_lit)
  ultimately show ?thesis
    by (simp add: py_percent_def fmt_init_def)
qed

section \<open>The scheme has no percent sign\<close>

lemma lower_not_percent: "c \<noteq> CHR ''%'' \<Longrightarrow> lower c \<noteq> CHR ''%''"
proof
  assume c: "c \<noteq> CHR ''%''" and l: "lower c = CHR ''%''"
  show False
  proof (cases "65 \<le> (of_char c :: nat) \<and> (of_char c :: nat) \<le> 90")
    case True
    with l have "char_of ((of_char c :: nat) + 32) = CHR ''%''"
      by (simp add: lower_def Let_def)
    then have "(of_char (char_of ((of_char c :: nat) + 32) :: char) :: nat) = of_char CHR ''%''"
      by simp
    with True show False by simp
  next
    case False
    with l c show False by (simp add: lower_def Let_def)
  qed
qed

lemma split_scheme_no_percent: "CHR ''%'' \<notin> set (fst (split_scheme url))"
proof -
  have "CHR ''%'' \<notin> set (map lower pre)" if "list_all (\<lambda>c. c \<in> set scheme_chars) pre" for pre
  proof
    assume "CHR ''%'' \<in> set (map lower pre)"
    then obtain c where "c \<in> set pre" and l: "lower c = CHR ''%''"
      by auto
    with that have "c \<in> set scheme_chars"
      by (simp add: list_all_iff)
    then have "c \<noteq> CHR ''%''"
      by (auto simp: scheme_chars_def)
    with l show False by (simp add: lower_not_percent)
  qed
  then show ?thesis
    by (simp add: split_scheme_def Let_def)
qed

lemma urlsplit_scheme_no_percent:
  "urlsplit host_ok url = Inr u \<Longrightarrow> CHR ''%'' \<notin> set (scheme u)"
  using split_scheme_no_percent [of "clean_url url"]
  by (auto simp: urlsplit_def Let_def split: prod.splits if_splits)

lemma otc_urlsplit:
  "urlsplit (\<lambda>host. True) otc_url =
     Inr \<lparr>scheme = ''https'', netloc = ''obs.%(region_name)s.otc.t-systems.com'',
          path = ''/v1'', query = [], fragment = []\<rparr>"
  by code_simp

lemma plain_urlsplit:
  "urlsplit (\<lambda>host. True) ''https://obs.example.com/v1/bucket?versioning#top'' =
     Inr \<lparr>scheme = ''https'', netloc = ''obs.example.com'',
          path = ''/v1/bucket'', query = ''versioning'', fragment = ''top''\<rparr>"
  by code_simp

section \<open>The endpoint of a region\<close>

text \<open>
  C9, amended. When the configured endpoint splits, \<open>get_container_endpoint\<close> returns
  the result of the \<^verbatim>\<open>%\<close> operator applied to \<^verbatim>\<open>scheme://netloc\<close> and the dictionary with
  the region under \<^verbatim>\<open>region_name\<close>: path, query and fragment of the endpoint play no
  part, and two endpoints with the same scheme and network location give the same result.
  When the network location has no percent sign the result is \<^verbatim>\<open>scheme://netloc\<close> as it
  is, whatever the region; when it is \<open>a\<close>, the placeholder \<^verbatim>\<open>%(region_name)s\<close> and \<open>b\<close>,
  with no percent sign in \<open>a\<close> and \<open>b\<close>, the result is \<^verbatim>\<open>scheme://\<close>, \<open>a\<close>, the region and
  \<open>b\<close>.
\<close>

theorem get_container_endpoint_scheme_and_netloc:
  assumes "urlsplit (bracketed_host_ok p) (get_endpoint p) = Inr u"
  shows "get_container_endpoint p region =
           py_percent (scheme u @ ''://'' @ netloc u) [(''region_name'', region)]
         \<and> (CHR ''%'' \<notin> set (netloc u) \<longrightarrow>
              get_container_endpoint p region = Inr (scheme u @ ''://'' @ netloc u))
         \<and> (\<forall>a b. netloc u = a @ ''%(region_name)s'' @ b
                \<and> CHR ''%'' \<notin> set a \<and> CHR ''%'' \<notin> set b \<longrightarrow>
              get_container_endpoint p region = Inr (scheme u @ ''://'' @ a @ region @ b))
         \<and> (\<forall>p' u'. urlsplit (bracketed_host_ok p') (get_endpoint p') = Inr u'
                \<and> scheme u' = scheme u \<and> netloc u' = netloc u \<longrightarrow>
              get_container_endpoint (p' :: 'c proxy) region = get_container_endpoint p region)"
proof (intro conjI allI impI)
  have sch: "CHR ''%'' \<notin> set (scheme u)"
    using assms by (rule urlsplit_scheme_no_percent)
  show eq: "get_container_endpoint p region =
           py_percent (scheme u @ ''://'' @ netloc u) [(''region_name'', region)]"
    using assms by (simp add: get_container_endpoint_def bind_def)
  show "get_container_endpoint p region = Inr (scheme u @ ''://'' @ netloc u)"
    if "CHR ''%'' \<notin> set (netloc u)"
    using that sch by (simp add: eq py_percent_plain)
  show "get_container_endpoint p region = Inr (scheme u @ ''://'' @ a @ region @ b)"
    if "netloc u = a @ ''%(region_name)s'' @ b \<and> CHR ''%'' \<notin> set a \<and> CHR ''%'' \<notin> set b"
    for a b
  proof -
    have "py_percent ((scheme u @ ''://'' @ a) @ ''%(region_name)s'' @ b)
            [(''region_name'', region)] = Inr ((scheme u @ ''://'' @ a) @ region @ b)"
      using that sch by (intro py_percent_region) simp_all
    with that show ?thesis
      by (simp add: eq)
  qed
  show "get_container_endpoint p' region = get_container_endpoint p region"
    if "urlsplit (bracketed_host_ok p') (get_endpoint p') = Inr u'
          \<and> scheme u' = scheme u \<and> netloc u' = netloc u"
    for p' :: "'c proxy" and u'
    using that assms by (simp add: get_container_endpoint_def bind_def)
qed

text \<open>
  The theorem at the endpoint \<^verbatim>\<open>https://obs.%(region_name)s.otc.t-systems.com/v1\<close> for
  the region \<^verbatim>\<open>eu-de\<close>, and at an endpoint with a path, a query and a fragment and no
  placeholder.
\<close>

theorem get_container_endpoint_scheme_and_netloc_witness:
  "urlsplit (bracketed_host_ok (echo_proxy 200)) (get_endpoint (echo_proxy 200)) =
     Inr \<lparr>scheme = ''https'', netloc = ''obs.%(region_name)s.otc.t-systems.com'',
          path = ''/v1'', query = [], fragment = []\<rparr>
   \<and> get_container_endpoint (echo_proxy 200) ''eu-de'' =
       Inr ''https://obs.eu-de.otc.t-systems.com''
   \<and> get_container_endpoint
         (stub_proxy ''https://obs.example.com/v1/bucket?versioning#top'' otc_keys Inr
            (echo_client 200)) ''eu-de'' =
       Inr ''https://obs.example.com''"
proof -
  let ?u = "\<lparr>scheme = ''https'', netloc = ''obs.%(region_name)s.otc.t-systems.com'',
          path = ''/v1'', query = [], fragment = []\<rparr>"
  let ?q = "stub_proxy ''https://obs.example.com/v1/bucket?versioning#top'' otc_keys Inr
            (echo_client 200)"
  have s: "urlsplit (bracketed_host_ok (echo_proxy 200)) (get_endpoint (echo_proxy 200)) =
     Inr ?u"
    by (simp add: echo_proxy_def stub_proxy_sel otc_urlsplit)
  have "netloc ?u = ''obs.'' @ ''%(region_name)s'' @ ''.otc.t-systems.com''
      \<and> CHR ''%'' \<notin> set ''obs.'' \<and> CHR ''%'' \<notin> set ''.otc.t-systems.com'' \<longrightarrow>
      get_container_endpoint (echo_proxy 200) ''eu-de'' =
        Inr (scheme ?u @ ''://'' @ ''obs.'' @ ''eu-de'' @ ''.otc.t-systems.com'')"
    using get_container_endpoint_scheme_and_netloc [OF s, of "''eu-de''"] by blast
  then have a: "get_container_endpoint (echo_proxy 200) ''eu-de'' =
       Inr ''https://obs.eu-de.otc.t-systems.com''"
    by simp
  have q: "urlsplit (bracketed_host_ok ?q) (get_endpoint ?q) =
     Inr \<lparr>scheme = ''https'', netloc = ''obs.example.com'',
          path = ''/v1/bucket'', query = ''versioning'', fragment = ''top''\<rparr>"
    by (simp add: stub_proxy_sel plain_urlsplit)
  have "CHR ''%'' \<notin> set ''obs.example.com'' \<longrightarrow>
      get_container_endpoint ?q ''eu-de'' = Inr (''https'' @ ''://'' @ ''obs.example.com'')"
    using get_container_endpoint_scheme_and_netloc [OF q, of "''eu-de''"]
    by (simp only: split_result.simps) blast
  then have b: "get_container_endpoint ?q ''eu-de'' = Inr ''https://obs.example.com''"
    by simp
  from s a b show ?thesis
    by simp
qed

text \<open>
  C9 as stated fails. The network location \<^verbatim>\<open>host%s\<close> has no placeholder
  \<^verbatim>\<open>%(region_name)s\<close>, yet the result shows the region, since \<^verbatim>\<open>%s\<close> prints the whole
  dictionary; and for the network location \<^verbatim>\<open>a%%b\<close> the result is not
  \<^verbatim>\<open>scheme://netloc\<close>, since \<^verbatim>\<open>%%\<close> becomes one percent sign.
\<close>

theorem endpoint_percent_conversions_counterexample:
  "get_container_endpoint (stub_proxy ''https://host%s/v1'' otc_keys Inr (echo_client 200)) ''a''
     = Inr (''https://host{'' @ [CHR 0x27] @ ''region_name'' @ [CHR 0x27] @ '': ''
            @ [CHR 0x27] @ ''a'' @ [CHR 0x27] @ ''}'')
   \<and> get_container_endpoint (stub_proxy ''https://host%s/v1'' otc_keys Inr (echo_client 200)) ''b''
     = Inr (''https://host{'' @ [CHR 0x27] @ ''region_name'' @ [CHR 0x27] @ '': ''
            @ [CHR 0x27] @ ''b'' @ [CHR 0x27] @ ''}'')
   \<and> get_container_endpoint (stub_proxy ''https://a%%b/v1'' otc_keys Inr (echo_client 200)) ''eu-de''
     = Inr ''https://a%b''"
  by code_simp

end
